theory Spec2Isabelle
  imports Main "HOL-Library.Word"
begin

unbundle bit_operations_syntax

section \<open>C types of the handlers (LP64 Linux)\<close>

type_synonym cint = "32 word"
type_synonym mode_t = "32 word"
type_synonym uid_t = "32 word"
type_synonym gid_t = "32 word"
type_synonym dev_t = "64 word"
type_synonym off_t = "64 word"
type_synonym size_t = "64 word"
type_synonym ssize_t = "64 word"
type_synonym uint64_t = "64 word"
type_synonym path = string
type_synonym bytes = "char list"

text \<open>\<^verbatim>\<open>struct timespec\<close>: seconds and nanoseconds.\<close>

record timespec =
  tv_sec :: "64 word"
  tv_nsec :: "64 word"

text \<open>\<^verbatim>\<open>struct stat\<close>, the fields the specification names.\<close>

record stat =
  st_mode :: mode_t
  st_nlink :: "64 word"
  st_uid :: uid_t
  st_gid :: gid_t
  st_size :: off_t
  st_atim :: timespec
  st_mtim :: timespec
  st_ctim :: timespec

text \<open>\<^verbatim>\<open>struct statvfs\<close>.\<close>

record statvfs =
  f_bsize :: "64 word"
  f_blocks :: "64 word"
  f_bfree :: "64 word"
  f_bavail :: "64 word"
  f_files :: "64 word"
  f_ffree :: "64 word"
  f_namemax :: "64 word"

text \<open>\<^verbatim>\<open>struct flock\<close>.\<close>

record flock =
  l_type :: "16 word"
  l_whence :: "16 word"
  l_start :: off_t
  l_len :: off_t
  l_pid :: cint

text \<open>\<^verbatim>\<open>struct dirent\<close>: the two fields \<^verbatim>\<open>mirror_readdir\<close> reads.\<close>

record dirent =
  d_name :: string
  d_off :: off_t

text \<open>
  \<^verbatim>\<open>struct fuse_file_info\<close>, the session record of the bridge framework: the
  handlers read \<^verbatim>\<open>flags\<close> and read or write \<^verbatim>\<open>fh\<close>, a 64-bit unsigned slot.
\<close>

record fuse_file_info =
  flags :: cint
  fh :: uint64_t

section \<open>The process state and the underlying system\<close>

text \<open>
  What a handler can observe and change outside its arguments: the thread's \<^verbatim>\<open>errno\<close>,
  the standard output (written by \<^verbatim>\<open>printf\<close>), and the state of the underlying
  operating system, of any type \<open>'k\<close>.
\<close>

record 'k world =
  errno :: cint
  stdout :: string
  kern :: 'k

type_synonym ('a, 'k) sys = "'k world \<Rightarrow> 'a \<times> 'k world"

text \<open>
  The library calls of the underlying system that the handlers use, one field per call,
  with the C arguments in the C order. A buffer passed by pointer is passed as its
  content and returned as its new content. A \<^verbatim>\<open>DIR *\<close> is its 64-bit address,
  \<open>0\<close> for \<^verbatim>\<open>NULL\<close>; \<^verbatim>\<open>readdir\<close> returns \<open>None\<close> for \<^verbatim>\<open>NULL\<close>.
\<close>

record 'k os =
  sys_access :: "path \<Rightarrow> cint \<Rightarrow> (cint, 'k) sys"
  sys_stat :: "path \<Rightarrow> stat \<Rightarrow> (cint \<times> stat, 'k) sys"
  sys_fstat :: "cint \<Rightarrow> stat \<Rightarrow> (cint \<times> stat, 'k) sys"
  sys_readlink :: "path \<Rightarrow> bytes \<Rightarrow> size_t \<Rightarrow> (ssize_t \<times> bytes, 'k) sys"
  sys_mknod :: "path \<Rightarrow> mode_t \<Rightarrow> dev_t \<Rightarrow> (cint, 'k) sys"
  sys_mkdir :: "path \<Rightarrow> mode_t \<Rightarrow> (cint, 'k) sys"
  sys_unlink :: "path \<Rightarrow> (cint, 'k) sys"
  sys_rmdir :: "path \<Rightarrow> (cint, 'k) sys"
  sys_link :: "path \<Rightarrow> path \<Rightarrow> (cint, 'k) sys"
  sys_symlink :: "path \<Rightarrow> path \<Rightarrow> (cint, 'k) sys"
  sys_rename :: "path \<Rightarrow> path \<Rightarrow> (cint, 'k) sys"
  sys_chmod :: "path \<Rightarrow> mode_t \<Rightarrow> (cint, 'k) sys"
  sys_chown :: "path \<Rightarrow> uid_t \<Rightarrow> gid_t \<Rightarrow> (cint, 'k) sys"
  sys_truncate :: "path \<Rightarrow> off_t \<Rightarrow> (cint, 'k) sys"
  sys_ftruncate :: "cint \<Rightarrow> off_t \<Rightarrow> (cint, 'k) sys"
  sys_opendir :: "path \<Rightarrow> (uint64_t, 'k) sys"
  sys_closedir :: "uint64_t \<Rightarrow> (cint, 'k) sys"
  sys_seekdir :: "uint64_t \<Rightarrow> off_t \<Rightarrow> 'k world \<Rightarrow> 'k world"
  sys_readdir :: "uint64_t \<Rightarrow> (dirent option, 'k) sys"
  sys_open :: "path \<Rightarrow> cint \<Rightarrow> (cint, 'k) sys"
  sys_creat :: "path \<Rightarrow> mode_t \<Rightarrow> (cint, 'k) sys"
  sys_close :: "cint \<Rightarrow> (cint, 'k) sys"
  sys_pread :: "cint \<Rightarrow> bytes \<Rightarrow> size_t \<Rightarrow> off_t \<Rightarrow> (ssize_t \<times> bytes, 'k) sys"
  sys_pwrite :: "cint \<Rightarrow> bytes \<Rightarrow> size_t \<Rightarrow> off_t \<Rightarrow> (ssize_t, 'k) sys"
  sys_fallocate :: "cint \<Rightarrow> cint \<Rightarrow> off_t \<Rightarrow> off_t \<Rightarrow> (cint, 'k) sys"
  sys_fcntl :: "cint \<Rightarrow> cint \<Rightarrow> flock \<Rightarrow> (cint \<times> flock, 'k) sys"
  sys_flock :: "cint \<Rightarrow> cint \<Rightarrow> (cint, 'k) sys"
  sys_fdatasync :: "cint \<Rightarrow> (cint, 'k) sys"
  sys_fsync :: "cint \<Rightarrow> (cint, 'k) sys"
  sys_getxattr :: "path \<Rightarrow> string \<Rightarrow> bytes \<Rightarrow> size_t \<Rightarrow> (ssize_t \<times> bytes, 'k) sys"
  sys_setxattr :: "path \<Rightarrow> string \<Rightarrow> bytes \<Rightarrow> size_t \<Rightarrow> cint \<Rightarrow> (cint, 'k) sys"
  sys_removexattr :: "path \<Rightarrow> string \<Rightarrow> (cint, 'k) sys"
  sys_listxattr :: "path \<Rightarrow> bytes \<Rightarrow> size_t \<Rightarrow> (ssize_t \<times> bytes, 'k) sys"
  sys_ioctl :: "cint \<Rightarrow> uint64_t \<Rightarrow> bytes \<Rightarrow> (cint \<times> bytes, 'k) sys"
  sys_statvfs :: "path \<Rightarrow> statvfs \<Rightarrow> (cint \<times> statvfs, 'k) sys"
  sys_utimensat :: "cint \<Rightarrow> path \<Rightarrow> timespec \<times> timespec \<Rightarrow> cint \<Rightarrow> (cint, 'k) sys"

section \<open>The handlers of \<^verbatim>\<open>mirrorfs.c\<close>\<close>

text \<open>
  Each handler takes the underlying system, its C arguments in the C order and the
  process state, and returns its \<^verbatim>\<open>int\<close> result with the new process state. A handler
  that receives the session record \<^verbatim>\<open>fi\<close> returns it as it leaves it; a handler with an
  output buffer returns the buffer's new content.
\<close>

definition mirror_access :: "'k os \<Rightarrow> path \<Rightarrow> cint \<Rightarrow> (cint, 'k) sys" where
  "mirror_access os path mode w =
     (let (r, w1) = sys_access os path mode w
      in if r = - 1 then (- errno w1, w1) else (0, w1))"

definition mirror_getattr :: "'k os \<Rightarrow> path \<Rightarrow> stat \<Rightarrow> (cint \<times> stat, 'k) sys" where
  "mirror_getattr os path stbuf w =
     (let ((r, stbuf1), w1) = sys_stat os path stbuf w
      in if r = - 1 then ((- errno w1, stbuf1), w1) else ((0, stbuf1), w1))"

definition mirror_fgetattr ::
  "'k os \<Rightarrow> path \<Rightarrow> stat \<Rightarrow> fuse_file_info \<Rightarrow> (cint \<times> stat \<times> fuse_file_info, 'k) sys" where
  "mirror_fgetattr os path stbuf fi w =
     (let ((r, stbuf1), w1) = sys_fstat os (ucast (fh fi)) stbuf w
      in if r = - 1 then ((- errno w1, stbuf1, fi), w1) else ((0, stbuf1, fi), w1))"

definition mirror_readlink :: "'k os \<Rightarrow> path \<Rightarrow> bytes \<Rightarrow> size_t \<Rightarrow> (cint \<times> bytes, 'k) sys" where
  "mirror_readlink os path buf bufsize w =
     (let ((n, buf1), w1) = sys_readlink os path buf bufsize w
      in if n = - 1 then ((- errno w1, buf1), w1) else ((0, buf1), w1))"

definition mirror_mknod :: "'k os \<Rightarrow> path \<Rightarrow> mode_t \<Rightarrow> dev_t \<Rightarrow> (cint, 'k) sys" where
  "mirror_mknod os path mode dev w =
     (let (r, w1) = sys_mknod os path mode dev w
      in if r = - 1 then (- errno w1, w1) else (0, w1))"

definition mirror_mkdir :: "'k os \<Rightarrow> path \<Rightarrow> mode_t \<Rightarrow> (cint, 'k) sys" where
  "mirror_mkdir os path mode w =
     (let (r, w1) = sys_mkdir os path mode w
      in if r = - 1 then (- errno w1, w1) else (0, w1))"

definition mirror_unlink :: "'k os \<Rightarrow> path \<Rightarrow> (cint, 'k) sys" where
  "mirror_unlink os path w =
     (let (r, w1) = sys_unlink os path w
      in if r = - 1 then (- errno w1, w1) else (0, w1))"

definition mirror_rmdir :: "'k os \<Rightarrow> path \<Rightarrow> (cint, 'k) sys" where
  "mirror_rmdir os path w =
     (let (r, w1) = sys_rmdir os path w
      in if r = - 1 then (- errno w1, w1) else (0, w1))"

definition mirror_link :: "'k os \<Rightarrow> path \<Rightarrow> path \<Rightarrow> (cint, 'k) sys" where
  "mirror_link os oldpath newpath w =
     (let (r, w1) = sys_link os oldpath newpath w
      in if r = - 1 then (- errno w1, w1) else (0, w1))"

text \<open>\<^verbatim>\<open>printf("Symlink '%s' -> '%s'", target, linkpath)\<close> appends to the standard output.\<close>

definition symlink_notice :: "path \<Rightarrow> path \<Rightarrow> string" where
  "symlink_notice target linkpath =
     ''Symlink '' @ [CHR 0x27] @ target @ [CHR 0x27] @ '' -> '' @ [CHR 0x27] @ linkpath @ [CHR 0x27]"

definition printf :: "string \<Rightarrow> 'k world \<Rightarrow> 'k world" where
  "printf s w = w\<lparr>stdout := stdout w @ s\<rparr>"

definition mirror_symlink :: "'k os \<Rightarrow> path \<Rightarrow> path \<Rightarrow> (cint, 'k) sys" where
  "mirror_symlink os target linkpath w =
     (let w0 = printf (symlink_notice target linkpath) w;
          (r, w1) = sys_symlink os target linkpath w0
      in if r = - 1 then (- errno w1, w1) else (0, w1))"

definition mirror_rename :: "'k os \<Rightarrow> path \<Rightarrow> path \<Rightarrow> (cint, 'k) sys" where
  "mirror_rename os oldpath newpath w =
     (let (r, w1) = sys_rename os oldpath newpath w
      in if r = - 1 then (- errno w1, w1) else (0, w1))"

definition mirror_chmod :: "'k os \<Rightarrow> path \<Rightarrow> mode_t \<Rightarrow> (cint, 'k) sys" where
  "mirror_chmod os path mode w =
     (let (r, w1) = sys_chmod os path mode w
      in if r = - 1 then (- errno w1, w1) else (0, w1))"

definition mirror_chown :: "'k os \<Rightarrow> path \<Rightarrow> uid_t \<Rightarrow> gid_t \<Rightarrow> (cint, 'k) sys" where
  "mirror_chown os path user grp w =
     (let (r, w1) = sys_chown os path user grp w
      in if r = - 1 then (- errno w1, w1) else (0, w1))"

definition mirror_truncate :: "'k os \<Rightarrow> path \<Rightarrow> off_t \<Rightarrow> (cint, 'k) sys" where
  "mirror_truncate os path len w =
     (let (r, w1) = sys_truncate os path len w
      in if r = - 1 then (- errno w1, w1) else (0, w1))"

definition mirror_ftruncate ::
  "'k os \<Rightarrow> path \<Rightarrow> off_t \<Rightarrow> fuse_file_info \<Rightarrow> (cint \<times> fuse_file_info, 'k) sys" where
  "mirror_ftruncate os path len fi w =
     (let (r, w1) = sys_ftruncate os (ucast (fh fi)) len w
      in if r = - 1 then ((- errno w1, fi), w1) else ((0, fi), w1))"

text \<open>\<^verbatim>\<open>fi->fh = (uint64_t)dir\<close> only when \<^verbatim>\<open>opendir\<close> did not return \<^verbatim>\<open>NULL\<close>.\<close>

definition mirror_opendir ::
  "'k os \<Rightarrow> path \<Rightarrow> fuse_file_info \<Rightarrow> (cint \<times> fuse_file_info, 'k) sys" where
  "mirror_opendir os path fi w =
     (let (dir, w1) = sys_opendir os path w
      in if dir = 0 then ((- errno w1, fi), w1) else ((0, fi\<lparr>fh := dir\<rparr>), w1))"

definition mirror_releasedir ::
  "'k os \<Rightarrow> path \<Rightarrow> fuse_file_info \<Rightarrow> (cint \<times> fuse_file_info, 'k) sys" where
  "mirror_releasedir os path fi w =
     (let (r, w1) = sys_closedir os (fh fi) w
      in if r = - 1 then ((- errno w1, fi), w1) else ((0, fi), w1))"

text \<open>
  The entry-emission callback \<^verbatim>\<open>fuse_fill_dir_t\<close>: the buffer, the name, a
  \<^verbatim>\<open>struct stat *\<close> (\<open>None\<close> for \<^verbatim>\<open>NULL\<close>) and an offset; it returns a C \<^verbatim>\<open>int\<close>
  (nonzero: the buffer is full) and the buffer as it leaves it.
\<close>

type_synonym 'b fuse_fill_dir_t = "'b \<Rightarrow> string \<Rightarrow> stat option \<Rightarrow> off_t \<Rightarrow> cint \<times> 'b"

text \<open>
  The \<^verbatim>\<open>while ((entry = readdir(dir)))\<close> loop. Nothing in the code bounds it: it ends
  when \<^verbatim>\<open>readdir\<close> returns \<^verbatim>\<open>NULL\<close> or the callback returns nonzero, so over an
  arbitrary system it is a partial function, \<open>None\<close> when it does not return.
\<close>

partial_function (option) readdir_loop ::
  "'k os \<Rightarrow> uint64_t \<Rightarrow> 'b fuse_fill_dir_t \<Rightarrow> 'b \<Rightarrow> 'k world \<Rightarrow> ('b \<times> 'k world) option" where
  "readdir_loop os dir filler buf w =
     (case sys_readdir os dir w of
        (None, w1) \<Rightarrow> Some (buf, w1)
      | (Some entry, w1) \<Rightarrow>
          (case filler buf (d_name entry) None (d_off entry) of
             (r, buf1) \<Rightarrow>
               if r \<noteq> 0 then Some (buf1, w1)
               else readdir_loop os dir filler buf1 w1))"

definition mirror_readdir ::
  "'k os \<Rightarrow> path \<Rightarrow> 'b \<Rightarrow> 'b fuse_fill_dir_t \<Rightarrow> off_t \<Rightarrow> fuse_file_info \<Rightarrow>
     'k world \<Rightarrow> ((cint \<times> 'b \<times> fuse_file_info) \<times> 'k world) option" where
  "mirror_readdir os path buf filler offset fi w =
     (let dir = fh fi;
          w0 = sys_seekdir os dir offset w
      in case readdir_loop os dir filler buf w0 of
           None \<Rightarrow> None
         | Some (buf1, w1) \<Rightarrow> Some ((0, buf1, fi), w1))"

text \<open>
  \<^verbatim>\<open>if ((fi->fh = open(path, fi->flags)) != 0) return -errno;\<close> The \<^verbatim>\<open>int\<close> that
  \<^verbatim>\<open>open\<close> returns is converted to the unsigned 64-bit slot (sign extension), and the
  stored value is compared with 0.
\<close>

definition mirror_open ::
  "'k os \<Rightarrow> path \<Rightarrow> fuse_file_info \<Rightarrow> (cint \<times> fuse_file_info, 'k) sys" where
  "mirror_open os path fi w =
     (let (r, w1) = sys_open os path (flags fi) w;
          fi1 = fi\<lparr>fh := scast r\<rparr>
      in if fh fi1 \<noteq> 0 then ((- errno w1, fi1), w1) else ((0, fi1), w1))"

text \<open>
  \<^verbatim>\<open>if ((fi->fh = creat(path, mode)) == -1) return -errno;\<close> The comparison is made
  at 64 bits, \<^verbatim>\<open>-1\<close> converted to \<^verbatim>\<open>uint64_t\<close>.
\<close>

definition mirror_create ::
  "'k os \<Rightarrow> path \<Rightarrow> mode_t \<Rightarrow> fuse_file_info \<Rightarrow> (cint \<times> fuse_file_info, 'k) sys" where
  "mirror_create os path mode fi w =
     (let (r, w1) = sys_creat os path mode w;
          fi1 = fi\<lparr>fh := scast r\<rparr>
      in if fh fi1 = - 1 then ((- errno w1, fi1), w1) else ((0, fi1), w1))"

text \<open>\<^verbatim>\<open>close(fi->fh); return 0;\<close> The slot is converted to \<^verbatim>\<open>int\<close> (truncation).\<close>

definition mirror_release ::
  "'k os \<Rightarrow> path \<Rightarrow> fuse_file_info \<Rightarrow> (cint \<times> fuse_file_info, 'k) sys" where
  "mirror_release os path fi w =
     (let (r, w1) = sys_close os (ucast (fh fi)) w
      in ((0, fi), w1))"

text \<open>
  \<^verbatim>\<open>return (int)bytes_read\<close>: the 64-bit \<^verbatim>\<open>ssize_t\<close> count is converted to \<^verbatim>\<open>int\<close>,
  which keeps its low 32 bits (the conversion of GCC and Clang). The same conversion is
  made in \<^verbatim>\<open>mirror_write\<close>, \<^verbatim>\<open>mirror_getxattr\<close> and \<^verbatim>\<open>mirror_listxattr\<close>.
\<close>

definition mirror_read ::
  "'k os \<Rightarrow> path \<Rightarrow> bytes \<Rightarrow> size_t \<Rightarrow> off_t \<Rightarrow> fuse_file_info \<Rightarrow>
     (cint \<times> bytes \<times> fuse_file_info, 'k) sys" where
  "mirror_read os path buf sz offset fi w =
     (let ((bytes_read, buf1), w1) = sys_pread os (ucast (fh fi)) buf sz offset w
      in if bytes_read = - 1 then ((0, buf1, fi), w1)
         else ((ucast bytes_read, buf1, fi), w1))"

definition mirror_write ::
  "'k os \<Rightarrow> path \<Rightarrow> bytes \<Rightarrow> size_t \<Rightarrow> off_t \<Rightarrow> fuse_file_info \<Rightarrow>
     (cint \<times> fuse_file_info, 'k) sys" where
  "mirror_write os path buf sz offset fi w =
     (let (written, w1) = sys_pwrite os (ucast (fh fi)) buf sz offset w
      in if written = - 1 then ((- errno w1, fi), w1)
         else ((ucast written, fi), w1))"

definition mirror_fallocate ::
  "'k os \<Rightarrow> path \<Rightarrow> cint \<Rightarrow> off_t \<Rightarrow> off_t \<Rightarrow> fuse_file_info \<Rightarrow>
     (cint \<times> fuse_file_info, 'k) sys" where
  "mirror_fallocate os path mode offset len fi w =
     (let (r, w1) = sys_fallocate os (ucast (fh fi)) mode offset len w
      in if r = - 1 then ((- errno w1, fi), w1) else ((0, fi), w1))"

definition mirror_lock ::
  "'k os \<Rightarrow> path \<Rightarrow> fuse_file_info \<Rightarrow> cint \<Rightarrow> flock \<Rightarrow>
     (cint \<times> flock \<times> fuse_file_info, 'k) sys" where
  "mirror_lock os path fi cmd lock w =
     (let ((r, lock1), w1) = sys_fcntl os (ucast (fh fi)) cmd lock w
      in if r = - 1 then ((- errno w1, lock1, fi), w1) else ((0, lock1, fi), w1))"

definition mirror_flock ::
  "'k os \<Rightarrow> path \<Rightarrow> fuse_file_info \<Rightarrow> cint \<Rightarrow> (cint \<times> fuse_file_info, 'k) sys" where
  "mirror_flock os path fi op w =
     (let (r, w1) = sys_flock os (ucast (fh fi)) op w
      in if r = - 1 then ((- errno w1, fi), w1) else ((0, fi), w1))"

definition mirror_fsync ::
  "'k os \<Rightarrow> path \<Rightarrow> cint \<Rightarrow> fuse_file_info \<Rightarrow> (cint \<times> fuse_file_info, 'k) sys" where
  "mirror_fsync os path datasync fi w =
     (let (res, w1) = (if datasync \<noteq> 0 then sys_fdatasync os (ucast (fh fi)) w
                       else sys_fsync os (ucast (fh fi)) w)
      in if res = - 1 then ((- errno w1, fi), w1) else ((0, fi), w1))"

definition mirror_getxattr ::
  "'k os \<Rightarrow> path \<Rightarrow> string \<Rightarrow> bytes \<Rightarrow> size_t \<Rightarrow> (cint \<times> bytes, 'k) sys" where
  "mirror_getxattr os path name val sz w =
     (let ((valsize, val1), w1) = sys_getxattr os path name val sz w
      in if valsize = - 1 then ((- errno w1, val1), w1)
         else ((ucast valsize, val1), w1))"

definition mirror_setxattr ::
  "'k os \<Rightarrow> path \<Rightarrow> string \<Rightarrow> bytes \<Rightarrow> size_t \<Rightarrow> cint \<Rightarrow> (cint, 'k) sys" where
  "mirror_setxattr os path name val sz xflags w =
     (let (r, w1) = sys_setxattr os path name val sz xflags w
      in if r = - 1 then (- errno w1, w1) else (0, w1))"

definition mirror_removexattr :: "'k os \<Rightarrow> path \<Rightarrow> string \<Rightarrow> (cint, 'k) sys" where
  "mirror_removexattr os path name w =
     (let (r, w1) = sys_removexattr os path name w
      in if r = - 1 then (- errno w1, w1) else (0, w1))"

definition mirror_listxattr ::
  "'k os \<Rightarrow> path \<Rightarrow> bytes \<Rightarrow> size_t \<Rightarrow> (cint \<times> bytes, 'k) sys" where
  "mirror_listxattr os path lst sz w =
     (let ((listsize, list1), w1) = sys_listxattr os path lst sz w
      in if listsize = - 1 then ((- errno w1, list1), w1)
         else ((ucast listsize, list1), w1))"

text \<open>
  \<^verbatim>\<open>ioctl(fi->fh, request, arg)\<close>: the \<^verbatim>\<open>int\<close> request is converted to the
  \<^verbatim>\<open>unsigned long\<close> parameter; \<^verbatim>\<open>flags\<close> and \<^verbatim>\<open>data\<close> are not used.
\<close>

definition mirror_ioctl ::
  "'k os \<Rightarrow> path \<Rightarrow> cint \<Rightarrow> bytes \<Rightarrow> fuse_file_info \<Rightarrow> cint \<Rightarrow> bytes \<Rightarrow>
     (cint \<times> bytes \<times> fuse_file_info, 'k) sys" where
  "mirror_ioctl os path request arg fi ioflags data w =
     (let ((r, arg1), w1) = sys_ioctl os (ucast (fh fi)) (scast request) arg w
      in if r = - 1 then ((- errno w1, arg1, fi), w1) else ((0, arg1, fi), w1))"

definition mirror_statfs :: "'k os \<Rightarrow> path \<Rightarrow> statvfs \<Rightarrow> (cint \<times> statvfs, 'k) sys" where
  "mirror_statfs os path buf w =
     (let ((r, buf1), w1) = sys_statvfs os path buf w
      in if r = - 1 then ((- errno w1, buf1), w1) else ((0, buf1), w1))"

text \<open>\<^verbatim>\<open>utimensat(-1, path, tv, 0)\<close>.\<close>

definition mirror_utimens :: "'k os \<Rightarrow> path \<Rightarrow> timespec \<times> timespec \<Rightarrow> (cint, 'k) sys" where
  "mirror_utimens os path tv w =
     (let (r, w1) = sys_utimensat os (- 1) path tv 0 w
      in if r = - 1 then (- errno w1, w1) else (0, w1))"

section \<open>The operation table \<^verbatim>\<open>mirror_oper\<close>\<close>

text \<open>
  One request kind per entry of \<^verbatim>\<open>mirror_oper\<close>, with the arguments the bridge framework
  passes to the handler, the session record apart. The framework keeps the session record
  and hands it (by pointer) only to the handlers that have a \<^verbatim>\<open>fi\<close> parameter. The
  table's \<^verbatim>\<open>flag_nopath\<close> lets the framework pass no path to the handlers of an open
  session; these handlers do not look at their path.
\<close>

datatype 'b request =
    Op_access path cint
  | Op_getattr path stat
  | Op_fgetattr path stat
  | Op_readlink path bytes size_t
  | Op_mknod path mode_t dev_t
  | Op_mkdir path mode_t
  | Op_unlink path
  | Op_rmdir path
  | Op_link path path
  | Op_symlink path path
  | Op_rename path path
  | Op_chmod path mode_t
  | Op_chown path uid_t gid_t
  | Op_truncate path off_t
  | Op_ftruncate path off_t
  | Op_opendir path
  | Op_releasedir path
  | Op_readdir path 'b "'b fuse_fill_dir_t" off_t
  | Op_open path
  | Op_create path mode_t
  | Op_release path
  | Op_read path bytes size_t off_t
  | Op_write path bytes size_t off_t
  | Op_fallocate path cint off_t off_t
  | Op_lock path cint flock
  | Op_flock path cint
  | Op_fsync path cint
  | Op_getxattr path string bytes size_t
  | Op_setxattr path string bytes size_t cint
  | Op_removexattr path string
  | Op_listxattr path bytes size_t
  | Op_ioctl path cint bytes cint bytes
  | Op_statfs path statvfs
  | Op_utimens path "timespec \<times> timespec"

text \<open>What a handler leaves in its output buffer, if it has one.\<close>

datatype 'b outbuf =
    No_out
  | Stat_out stat
  | Bytes_out bytes
  | Flock_out flock
  | Statvfs_out statvfs
  | Fill_out 'b

type_synonym ('b, 'k) reply = "(cint \<times> 'b outbuf \<times> fuse_file_info) \<times> 'k world"

definition plain :: "fuse_file_info \<Rightarrow> cint \<times> 'k world \<Rightarrow> ('b, 'k) reply option" where
  "plain fi x = (case x of (r, w1) \<Rightarrow> Some ((r, No_out, fi), w1))"

definition session :: "(cint \<times> fuse_file_info) \<times> 'k world \<Rightarrow> ('b, 'k) reply option" where
  "session x = (case x of ((r, fi1), w1) \<Rightarrow> Some ((r, No_out, fi1), w1))"

fun mirror_oper ::
  "'k os \<Rightarrow> 'b request \<Rightarrow> fuse_file_info \<Rightarrow> 'k world \<Rightarrow> ('b, 'k) reply option" where
  "mirror_oper os (Op_access path mode) fi w = plain fi (mirror_access os path mode w)"
| "mirror_oper os (Op_getattr path stbuf) fi w =
     (case mirror_getattr os path stbuf w of
        ((r, stbuf1), w1) \<Rightarrow> Some ((r, Stat_out stbuf1, fi), w1))"
| "mirror_oper os (Op_fgetattr path stbuf) fi w =
     (case mirror_fgetattr os path stbuf fi w of
        ((r, stbuf1, fi1), w1) \<Rightarrow> Some ((r, Stat_out stbuf1, fi1), w1))"
| "mirror_oper os (Op_readlink path buf bufsize) fi w =
     (case mirror_readlink os path buf bufsize w of
        ((r, buf1), w1) \<Rightarrow> Some ((r, Bytes_out buf1, fi), w1))"
| "mirror_oper os (Op_mknod path mode dev) fi w = plain fi (mirror_mknod os path mode dev w)"
| "mirror_oper os (Op_mkdir path mode) fi w = plain fi (mirror_mkdir os path mode w)"
| "mirror_oper os (Op_unlink path) fi w = plain fi (mirror_unlink os path w)"
| "mirror_oper os (Op_rmdir path) fi w = plain fi (mirror_rmdir os path w)"
| "mirror_oper os (Op_link oldpath newpath) fi w =
     plain fi (mirror_link os oldpath newpath w)"
| "mirror_oper os (Op_symlink target linkpath) fi w =
     plain fi (mirror_symlink os target linkpath w)"
| "mirror_oper os (Op_rename oldpath newpath) fi w =
     plain fi (mirror_rename os oldpath newpath w)"
| "mirror_oper os (Op_chmod path mode) fi w = plain fi (mirror_chmod os path mode w)"
| "mirror_oper os (Op_chown path user grp) fi w =
     plain fi (mirror_chown os path user grp w)"
| "mirror_oper os (Op_truncate path len) fi w = plain fi (mirror_truncate os path len w)"
| "mirror_oper os (Op_ftruncate path len) fi w = session (mirror_ftruncate os path len fi w)"
| "mirror_oper os (Op_opendir path) fi w = session (mirror_opendir os path fi w)"
| "mirror_oper os (Op_releasedir path) fi w = session (mirror_releasedir os path fi w)"
| "mirror_oper os (Op_readdir path buf filler offset) fi w =
     (case mirror_readdir os path buf filler offset fi w of
        None \<Rightarrow> None
      | Some ((r, buf1, fi1), w1) \<Rightarrow> Some ((r, Fill_out buf1, fi1), w1))"
| "mirror_oper os (Op_open path) fi w = session (mirror_open os path fi w)"
| "mirror_oper os (Op_create path mode) fi w = session (mirror_create os path mode fi w)"
| "mirror_oper os (Op_release path) fi w = session (mirror_release os path fi w)"
| "mirror_oper os (Op_read path buf sz offset) fi w =
     (case mirror_read os path buf sz offset fi w of
        ((r, buf1, fi1), w1) \<Rightarrow> Some ((r, Bytes_out buf1, fi1), w1))"
| "mirror_oper os (Op_write path buf sz offset) fi w =
     session (mirror_write os path buf sz offset fi w)"
| "mirror_oper os (Op_fallocate path mode offset len) fi w =
     session (mirror_fallocate os path mode offset len fi w)"
| "mirror_oper os (Op_lock path cmd lock) fi w =
     (case mirror_lock os path fi cmd lock w of
        ((r, lock1, fi1), w1) \<Rightarrow> Some ((r, Flock_out lock1, fi1), w1))"
| "mirror_oper os (Op_flock path op) fi w = session (mirror_flock os path fi op w)"
| "mirror_oper os (Op_fsync path datasync) fi w =
     session (mirror_fsync os path datasync fi w)"
| "mirror_oper os (Op_getxattr path name val sz) fi w =
     (case mirror_getxattr os path name val sz w of
        ((r, val1), w1) \<Rightarrow> Some ((r, Bytes_out val1, fi), w1))"
| "mirror_oper os (Op_setxattr path name val sz xflags) fi w =
     plain fi (mirror_setxattr os path name val sz xflags w)"
| "mirror_oper os (Op_removexattr path name) fi w =
     plain fi (mirror_removexattr os path name w)"
| "mirror_oper os (Op_listxattr path lst sz) fi w =
     (case mirror_listxattr os path lst sz w of
        ((r, list1), w1) \<Rightarrow> Some ((r, Bytes_out list1, fi), w1))"
| "mirror_oper os (Op_ioctl path request arg ioflags data) fi w =
     (case mirror_ioctl os path request arg fi ioflags data w of
        ((r, arg1, fi1), w1) \<Rightarrow> Some ((r, Bytes_out arg1, fi1), w1))"
| "mirror_oper os (Op_statfs path buf) fi w =
     (case mirror_statfs os path buf w of
        ((r, buf1), w1) \<Rightarrow> Some ((r, Statvfs_out buf1, fi), w1))"
| "mirror_oper os (Op_utimens path tv) fi w = plain fi (mirror_utimens os path tv w)"

section \<open>A reference model of the underlying system\<close>

text \<open>
  The handlers are stated over any underlying system. Where a property depends on what
  the underlying calls themselves do (a directory stream, a symbolic link, file content, a
  descriptor's access mode, timestamps), it is stated on this small system, which follows
  the POSIX and Linux manual pages of the calls it implements: \<^verbatim>\<open>open\<close>, \<^verbatim>\<open>creat\<close>,
  \<^verbatim>\<open>close\<close>, \<^verbatim>\<open>pread\<close>, \<^verbatim>\<open>pwrite\<close>, \<^verbatim>\<open>readlink\<close>, \<^verbatim>\<open>utimensat\<close>, \<^verbatim>\<open>opendir\<close>,
  \<^verbatim>\<open>seekdir\<close>, \<^verbatim>\<open>readdir\<close> and \<^verbatim>\<open>closedir\<close>. It has no permissions and no inodes (an
  open file is known by its path), and \<^verbatim>\<open>open\<close> does not follow symbolic links. As on
  Linux, one call transfers at most \<^verbatim>\<open>0x7ffff000\<close> bytes, and \<^verbatim>\<open>pwrite\<close> through a
  descriptor opened with \<^verbatim>\<open>O_APPEND\<close> appends, whatever the offset. An open file has a
  cursor, which starts at 0 and which the positioned calls \<^verbatim>\<open>pread\<close> and \<^verbatim>\<open>pwrite\<close>
  neither read nor move. A failing call returns \<open>-1\<close> and sets \<^verbatim>\<open>errno\<close>; a succeeding
  call leaves \<^verbatim>\<open>errno\<close> as it was.
\<close>

datatype node = Regular bytes | Symlink path | Directory "dirent list"

record open_file =
  of_path :: path
  of_flags :: cint
  of_pos :: off_t

record dir_stream =
  ds_entries :: "dirent list"
  ds_pos :: nat

record kernel =
  nodes :: "path \<Rightarrow> node option"
  stamps :: "path \<Rightarrow> timespec \<times> timespec"
  clock :: timespec
  cwd :: path
  fdtab :: "open_file option list"
  dirtab :: "dir_stream option list"

definition ENOENT :: cint where "ENOENT = 2"
definition EBADF :: cint where "EBADF = 9"
definition ENOMEM :: cint where "ENOMEM = 12"
definition ENOTDIR :: cint where "ENOTDIR = 20"
definition EISDIR :: cint where "EISDIR = 21"
definition EINVAL :: cint where "EINVAL = 22"
definition EMFILE :: cint where "EMFILE = 24"
definition ENOSYS :: cint where "ENOSYS = 38"
definition ELOOP :: cint where "ELOOP = 40"

definition O_RDONLY :: cint where "O_RDONLY = 0"
definition O_WRONLY :: cint where "O_WRONLY = 1"
definition O_RDWR :: cint where "O_RDWR = 2"
definition O_ACCMODE :: cint where "O_ACCMODE = 3"
definition O_CREAT :: cint where "O_CREAT = 64"
definition O_TRUNC :: cint where "O_TRUNC = 512"
definition O_APPEND :: cint where "O_APPEND = 1024"
definition AT_FDCWD :: cint where "AT_FDCWD = - 100"
definition UTIME_NOW :: "64 word" where "UTIME_NOW = 1073741823"
definition UTIME_OMIT :: "64 word" where "UTIME_OMIT = 1073741822"
definition OPEN_MAX :: nat where "OPEN_MAX = 1024"
definition MAX_RW_COUNT :: nat where "MAX_RW_COUNT = 2147479552"

text \<open>A failing call: \<open>-1\<close> (at the width of the call's result) and \<^verbatim>\<open>errno\<close> set.\<close>

definition fail :: "cint \<Rightarrow> 'k world \<Rightarrow> 'n::len word \<times> 'k world" where
  "fail e w = (- 1, w\<lparr>errno := e\<rparr>)"

definition fail_buf :: "cint \<Rightarrow> 'a \<Rightarrow> 'k world \<Rightarrow> ('n::len word \<times> 'a) \<times> 'k world" where
  "fail_buf e buf w = ((- 1, buf), w\<lparr>errno := e\<rparr>)"

text \<open>Tables of open descriptors and open streams: the lowest free slot is taken.\<close>

fun first_free :: "'a option list \<Rightarrow> nat" where
  "first_free [] = 0"
| "first_free (None # t) = 0"
| "first_free (Some x # t) = Suc (first_free t)"

definition install :: "'a option list \<Rightarrow> 'a \<Rightarrow> 'a option list" where
  "install tab x =
     (let i = first_free tab in if i < length tab then tab[i := Some x] else tab @ [Some x])"

definition slot :: "'a option list \<Rightarrow> nat \<Rightarrow> 'a option" where
  "slot tab i = (if i < length tab then tab ! i else None)"

definition vacate :: "'a option list \<Rightarrow> nat \<Rightarrow> 'a option list" where
  "vacate tab i = (if i < length tab then tab[i := None] else tab)"

definition fd_lookup :: "kernel \<Rightarrow> cint \<Rightarrow> open_file option" where
  "fd_lookup k fd = (if fd <s 0 then None else slot (fdtab k) (unat fd))"

text \<open>A \<^verbatim>\<open>DIR *\<close> is the stream's slot number plus one, so that it is never \<^verbatim>\<open>NULL\<close>.\<close>

definition dir_lookup :: "kernel \<Rightarrow> uint64_t \<Rightarrow> dir_stream option" where
  "dir_lookup k d = (if d = 0 then None else slot (dirtab k) (unat d - 1))"

definition readable :: "open_file \<Rightarrow> bool" where
  "readable f = (of_flags f AND O_ACCMODE \<noteq> O_WRONLY)"

definition writable :: "open_file \<Rightarrow> bool" where
  "writable f = (of_flags f AND O_ACCMODE \<noteq> O_RDONLY)"

text \<open>
  \<^verbatim>\<open>open(path, oflags, mode)\<close>. \<^verbatim>\<open>O_CREAT\<close> creates a missing file empty; \<^verbatim>\<open>O_TRUNC\<close>
  empties an existing regular file opened for writing.
\<close>

definition k_open3 :: "path \<Rightarrow> cint \<Rightarrow> mode_t \<Rightarrow> (cint, kernel) sys" where
  "k_open3 path oflags mode w =
     (let k = kern w;
          i = first_free (fdtab k);
          f = \<lparr>of_path = path, of_flags = oflags, of_pos = 0\<rparr>;
          tab = install (fdtab k) f
      in if OPEN_MAX \<le> i then fail EMFILE w
         else (case nodes k path of
           None \<Rightarrow>
             if oflags AND O_CREAT \<noteq> 0
             then (of_nat i, w\<lparr>kern := k\<lparr>nodes := (nodes k)(path := Some (Regular [])),
                                             fdtab := tab\<rparr>\<rparr>)
             else fail ENOENT w
         | Some (Regular content) \<Rightarrow>
             if oflags AND O_TRUNC \<noteq> 0 \<and> writable f
             then (of_nat i, w\<lparr>kern := k\<lparr>nodes := (nodes k)(path := Some (Regular [])),
                                             fdtab := tab\<rparr>\<rparr>)
             else (of_nat i, w\<lparr>kern := k\<lparr>fdtab := tab\<rparr>\<rparr>)
         | Some (Symlink target) \<Rightarrow> fail ELOOP w
         | Some (Directory entries) \<Rightarrow>
             if writable f then fail EISDIR w
             else (of_nat i, w\<lparr>kern := k\<lparr>fdtab := tab\<rparr>\<rparr>)))"

text \<open>\<^verbatim>\<open>open(path, oflags)\<close>, and \<^verbatim>\<open>creat(path, mode)\<close> as POSIX defines it.\<close>

definition k_open :: "path \<Rightarrow> cint \<Rightarrow> (cint, kernel) sys" where
  "k_open path oflags w = k_open3 path oflags 0 w"

definition k_creat :: "path \<Rightarrow> mode_t \<Rightarrow> (cint, kernel) sys" where
  "k_creat path mode w = k_open3 path (O_WRONLY OR O_CREAT OR O_TRUNC) mode w"

definition k_close :: "cint \<Rightarrow> (cint, kernel) sys" where
  "k_close fd w =
     (let k = kern w
      in case fd_lookup k fd of
           None \<Rightarrow> fail EBADF w
         | Some f \<Rightarrow> (0, w\<lparr>kern := k\<lparr>fdtab := vacate (fdtab k) (unat fd)\<rparr>\<rparr>))"

text \<open>
  The number of bytes one call transfers at most: the count asked for, and no more than
  \<^verbatim>\<open>MAX_RW_COUNT\<close>, which is \<^verbatim>\<open>0x7ffff000\<close>. What a positioned transfer answers is
  therefore \<open>-1\<close> or a count from 0 to \<^verbatim>\<open>0x7ffff000\<close>.
\<close>

definition transfer_len :: "size_t \<Rightarrow> nat" where
  "transfer_len count = min (unat count) MAX_RW_COUNT"

definition transfer_result :: "ssize_t \<Rightarrow> bool" where
  "transfer_result n = (n = - 1 \<or> (0 \<le> sint n \<and> sint n \<le> 2147479552))"

text \<open>
  \<^verbatim>\<open>pread(fd, buf, count, offset)\<close>: the bytes of the file from \<open>offset\<close>, at most
  \<open>transfer_len count\<close>, are put at the start of the buffer, and their number is returned.
\<close>

definition k_pread :: "cint \<Rightarrow> bytes \<Rightarrow> size_t \<Rightarrow> off_t \<Rightarrow> (ssize_t \<times> bytes, kernel) sys" where
  "k_pread fd buf count offset w =
     (let k = kern w
      in case fd_lookup k fd of
           None \<Rightarrow> fail_buf EBADF buf w
         | Some f \<Rightarrow>
             if \<not> readable f then fail_buf EBADF buf w
             else if offset <s 0 then fail_buf EINVAL buf w
             else (case nodes k (of_path f) of
                     Some (Regular content) \<Rightarrow>
                       (let got = take (transfer_len count) (drop (unat offset) content);
                            n = length got
                        in ((of_nat n, got @ drop n buf), w))
                   | Some (Directory entries) \<Rightarrow> fail_buf EISDIR buf w
                   | Some (Symlink target) \<Rightarrow> fail_buf EBADF buf w
                   | None \<Rightarrow> fail_buf EBADF buf w))"

text \<open>
  \<^verbatim>\<open>pwrite(fd, buf, count, offset)\<close>: the first \<open>transfer_len count\<close> bytes of the buffer
  replace the file's bytes from \<open>offset\<close>, or from the end of the file when the descriptor
  was opened with \<^verbatim>\<open>O_APPEND\<close>; a gap after the old end is filled with zero bytes. A
  negative offset is refused in both cases.
\<close>

definition put_at :: "bytes \<Rightarrow> nat \<Rightarrow> bytes \<Rightarrow> bytes" where
  "put_at content off bs =
     take off content @ replicate (off - length content) (CHR 0x00) @ bs
       @ drop (off + length bs) content"

definition appending :: "open_file \<Rightarrow> bool" where
  "appending f = (of_flags f AND O_APPEND \<noteq> 0)"

definition write_pos :: "open_file \<Rightarrow> bytes \<Rightarrow> off_t \<Rightarrow> nat" where
  "write_pos f content offset = (if appending f then length content else unat offset)"

definition k_pwrite :: "cint \<Rightarrow> bytes \<Rightarrow> size_t \<Rightarrow> off_t \<Rightarrow> (ssize_t, kernel) sys" where
  "k_pwrite fd buf count offset w =
     (let k = kern w
      in case fd_lookup k fd of
           None \<Rightarrow> fail EBADF w
         | Some f \<Rightarrow>
             if \<not> writable f then fail EBADF w
             else if offset <s 0 then fail EINVAL w
             else (case nodes k (of_path f) of
                     Some (Regular content) \<Rightarrow>
                       (let bs = take (transfer_len count) buf
                        in (of_nat (length bs),
                            w\<lparr>kern := k\<lparr>nodes := (nodes k)(of_path f :=
                                  Some (Regular
                                    (put_at content (write_pos f content offset) bs)))\<rparr>\<rparr>))
                   | Some (Directory entries) \<Rightarrow> fail EBADF w
                   | Some (Symlink target) \<Rightarrow> fail EBADF w
                   | None \<Rightarrow> fail EBADF w))"

text \<open>
  \<^verbatim>\<open>readlink(path, buf, bufsiz)\<close> places the target in the buffer without a terminating
  null byte and returns the number of bytes placed; a target longer than \<open>bufsiz\<close> is
  truncated to \<open>bufsiz\<close> bytes, which is not an error.
\<close>

definition k_readlink :: "path \<Rightarrow> bytes \<Rightarrow> size_t \<Rightarrow> (ssize_t \<times> bytes, kernel) sys" where
  "k_readlink path buf bufsiz w =
     (case nodes (kern w) path of
        None \<Rightarrow> fail_buf ENOENT buf w
      | Some (Symlink target) \<Rightarrow>
          if bufsiz = 0 then fail_buf EINVAL buf w
          else (let got = take (unat bufsiz) target; n = length got
                in ((of_nat n, got @ drop n buf), w))
      | Some (Regular content) \<Rightarrow> fail_buf EINVAL buf w
      | Some (Directory entries) \<Rightarrow> fail_buf EINVAL buf w)"

text \<open>
  \<^verbatim>\<open>utimensat(dirfd, path, times, flags)\<close>. An absolute path is resolved as it is and
  \<open>dirfd\<close> is ignored; a relative path is resolved from the working directory when
  \<open>dirfd\<close> is \<^verbatim>\<open>AT_FDCWD\<close>, and from the directory open at \<open>dirfd\<close> otherwise. A
  nanosecond field of \<^verbatim>\<open>UTIME_NOW\<close> takes the clock, one of \<^verbatim>\<open>UTIME_OMIT\<close> keeps the
  old timestamp.
\<close>

definition at_resolve :: "kernel \<Rightarrow> cint \<Rightarrow> path \<Rightarrow> cint + path" where
  "at_resolve k dirfd path =
     (if path = [] then Inl ENOENT
      else if hd path = CHR ''/'' then Inr path
      else if dirfd = AT_FDCWD then Inr (cwd k @ ''/'' @ path)
      else (case fd_lookup k dirfd of
             None \<Rightarrow> Inl EBADF
           | Some f \<Rightarrow>
               (case nodes k (of_path f) of
                  Some (Directory entries) \<Rightarrow> Inr (of_path f @ ''/'' @ path)
                | Some (Regular content) \<Rightarrow> Inl ENOTDIR
                | Some (Symlink target) \<Rightarrow> Inl ENOTDIR
                | None \<Rightarrow> Inl ENOTDIR)))"

definition nsec_ok :: "timespec \<Rightarrow> bool" where
  "nsec_ok t = (tv_nsec t < 1000000000 \<or> tv_nsec t = UTIME_NOW \<or> tv_nsec t = UTIME_OMIT)"

definition new_stamp :: "kernel \<Rightarrow> timespec \<Rightarrow> timespec \<Rightarrow> timespec" where
  "new_stamp k old t =
     (if tv_nsec t = UTIME_NOW then clock k
      else if tv_nsec t = UTIME_OMIT then old
      else t)"

definition k_utimensat ::
  "cint \<Rightarrow> path \<Rightarrow> timespec \<times> timespec \<Rightarrow> cint \<Rightarrow> (cint, kernel) sys" where
  "k_utimensat dirfd path tv atflags w =
     (let k = kern w
      in if nsec_ok (fst tv) \<and> nsec_ok (snd tv)
         then (case at_resolve k dirfd path of
                 Inl e \<Rightarrow> fail e w
               | Inr p \<Rightarrow>
                   (case nodes k p of
                      None \<Rightarrow> fail ENOENT w
                    | Some nd \<Rightarrow>
                        (0, w\<lparr>kern := k\<lparr>stamps := (stamps k)(p :=
                              (new_stamp k (fst (stamps k p)) (fst tv),
                               new_stamp k (snd (stamps k p)) (snd tv)))\<rparr>\<rparr>)))
         else fail EINVAL w)"

text \<open>
  Directory streams. \<^verbatim>\<open>opendir\<close> takes the directory's entries as they are;
  \<^verbatim>\<open>readdir\<close> returns the entry at the position and advances, \<^verbatim>\<open>NULL\<close> at the end;
  \<^verbatim>\<open>seekdir\<close> to 0 is the start, and to the \<^verbatim>\<open>d_off\<close> of an entry is the position after
  that entry. A location the stream never gave leaves nothing to read.
\<close>

fun locate :: "dirent list \<Rightarrow> off_t \<Rightarrow> nat" where
  "locate [] loc = 0"
| "locate (e # es) loc = (if d_off e = loc then 1 else Suc (locate es loc))"

definition seek_pos :: "dirent list \<Rightarrow> off_t \<Rightarrow> nat" where
  "seek_pos ents loc = (if loc = 0 then 0 else locate ents loc)"

definition k_opendir :: "path \<Rightarrow> (uint64_t, kernel) sys" where
  "k_opendir path w =
     (let k = kern w;
          d = of_nat (Suc (first_free (dirtab k)))
      in case nodes k path of
           None \<Rightarrow> (0, w\<lparr>errno := ENOENT\<rparr>)
         | Some (Regular content) \<Rightarrow> (0, w\<lparr>errno := ENOTDIR\<rparr>)
         | Some (Symlink target) \<Rightarrow> (0, w\<lparr>errno := ENOTDIR\<rparr>)
         | Some (Directory entries) \<Rightarrow>
             if d = 0 then (0, w\<lparr>errno := ENOMEM\<rparr>)
             else (d, w\<lparr>kern := k\<lparr>dirtab :=
                     install (dirtab k) \<lparr>ds_entries = entries, ds_pos = 0\<rparr>\<rparr>\<rparr>))"

definition k_seekdir :: "uint64_t \<Rightarrow> off_t \<Rightarrow> kernel world \<Rightarrow> kernel world" where
  "k_seekdir d loc w =
     (let k = kern w
      in case dir_lookup k d of
           None \<Rightarrow> w
         | Some s \<Rightarrow>
             w\<lparr>kern := k\<lparr>dirtab :=
                 (dirtab k)[unat d - 1 := Some (s\<lparr>ds_pos := seek_pos (ds_entries s) loc\<rparr>)]\<rparr>\<rparr>)"

definition k_readdir :: "uint64_t \<Rightarrow> (dirent option, kernel) sys" where
  "k_readdir d w =
     (let k = kern w
      in case dir_lookup k d of
           None \<Rightarrow> (None, w\<lparr>errno := EBADF\<rparr>)
         | Some s \<Rightarrow>
             if ds_pos s < length (ds_entries s)
             then (Some (ds_entries s ! ds_pos s),
                   w\<lparr>kern := k\<lparr>dirtab :=
                       (dirtab k)[unat d - 1 := Some (s\<lparr>ds_pos := Suc (ds_pos s)\<rparr>)]\<rparr>\<rparr>)
             else (None, w))"

definition k_closedir :: "uint64_t \<Rightarrow> (cint, kernel) sys" where
  "k_closedir d w =
     (let k = kern w
      in case dir_lookup k d of
           None \<Rightarrow> fail EBADF w
         | Some s \<Rightarrow> (0, w\<lparr>kern := k\<lparr>dirtab := vacate (dirtab k) (unat d - 1)\<rparr>\<rparr>))"

text \<open>The calls the reference system does not implement fail with \<^verbatim>\<open>ENOSYS\<close>.\<close>

definition ref_os :: "kernel os" where
  "ref_os = \<lparr>
     sys_access = (\<lambda>path mode. fail ENOSYS),
     sys_stat = (\<lambda>path stbuf. fail_buf ENOSYS stbuf),
     sys_fstat = (\<lambda>fd stbuf. fail_buf ENOSYS stbuf),
     sys_readlink = k_readlink,
     sys_mknod = (\<lambda>path mode dev. fail ENOSYS),
     sys_mkdir = (\<lambda>path mode. fail ENOSYS),
     sys_unlink = (\<lambda>path. fail ENOSYS),
     sys_rmdir = (\<lambda>path. fail ENOSYS),
     sys_link = (\<lambda>oldpath newpath. fail ENOSYS),
     sys_symlink = (\<lambda>target linkpath. fail ENOSYS),
     sys_rename = (\<lambda>oldpath newpath. fail ENOSYS),
     sys_chmod = (\<lambda>path mode. fail ENOSYS),
     sys_chown = (\<lambda>path user grp. fail ENOSYS),
     sys_truncate = (\<lambda>path len. fail ENOSYS),
     sys_ftruncate = (\<lambda>fd len. fail ENOSYS),
     sys_opendir = k_opendir,
     sys_closedir = k_closedir,
     sys_seekdir = k_seekdir,
     sys_readdir = k_readdir,
     sys_open = k_open,
     sys_creat = k_creat,
     sys_close = k_close,
     sys_pread = k_pread,
     sys_pwrite = k_pwrite,
     sys_fallocate = (\<lambda>fd mode offset len. fail ENOSYS),
     sys_fcntl = (\<lambda>fd cmd lock. fail_buf ENOSYS lock),
     sys_flock = (\<lambda>fd op. fail ENOSYS),
     sys_fdatasync = (\<lambda>fd. fail ENOSYS),
     sys_fsync = (\<lambda>fd. fail ENOSYS),
     sys_getxattr = (\<lambda>path name val sz. fail_buf ENOSYS val),
     sys_setxattr = (\<lambda>path name val sz xflags. fail ENOSYS),
     sys_removexattr = (\<lambda>path name. fail ENOSYS),
     sys_listxattr = (\<lambda>path lst sz. fail_buf ENOSYS lst),
     sys_ioctl = (\<lambda>fd request arg. fail_buf ENOSYS arg),
     sys_statvfs = (\<lambda>path buf. fail_buf ENOSYS buf),
     sys_utimensat = k_utimensat \<rparr>"

section \<open>A small installation of the reference system\<close>

definition epoch :: timespec where
  "epoch = \<lparr>tv_sec = 0, tv_nsec = 0\<rparr>"

definition tty :: open_file where
  "tty = \<lparr>of_path = ''/dev/tty'', of_flags = O_RDWR, of_pos = 0\<rparr>"

definition etc_entries :: "dirent list" where
  "etc_entries =
     [\<lparr>d_name = ''.'', d_off = 10\<rparr>, \<lparr>d_name = ''..'', d_off = 20\<rparr>,
      \<lparr>d_name = ''motd'', d_off = 30\<rparr>, \<lparr>d_name = ''mtab'', d_off = 40\<rparr>]"

definition boot_nodes :: "path \<Rightarrow> node option" where
  "boot_nodes p =
     (if p = ''/dev/tty'' then Some (Regular [])
      else if p = ''/etc'' then Some (Directory etc_entries)
      else if p = ''/etc/motd'' then Some (Regular ''hello'')
      else if p = ''/etc/mtab'' then Some (Symlink ''/proc/mounts'')
      else if p = ''/var/image'' then Some (Regular (replicate 2147483648 (CHR 0x00)))
      else None)"

text \<open>
  The process starts with the three standard descriptors open and nothing in \<^verbatim>\<open>errno\<close>.
  The file \<^verbatim>\<open>/var/image\<close> has \<open>2\<^sup>3\<^sup>1\<close> bytes.
\<close>

definition boot :: kernel where
  "boot = \<lparr>nodes = boot_nodes, stamps = (\<lambda>p. (epoch, epoch)),
            clock = \<lparr>tv_sec = 1000, tv_nsec = 0\<rparr>, cwd = ''/'',
            fdtab = [Some tty, Some tty, Some tty], dirtab = []\<rparr>"

definition boot_world :: "kernel world" where
  "boot_world = \<lparr>errno = 0, stdout = [], kern = boot\<rparr>"


text \<open>The installation after \<^verbatim>\<open>/var/image\<close> was opened for reading and writing.\<close>

definition image_world :: "kernel world" where
  "image_world =
     boot_world\<lparr>kern := boot\<lparr>fdtab := fdtab boot @
        [Some \<lparr>of_path = ''/var/image'', of_flags = O_RDWR, of_pos = 0\<rparr>]\<rparr>\<rparr>"

text \<open>
  The installation after \<^verbatim>\<open>/etc/motd\<close> was opened for reading and writing, without and
  with \<^verbatim>\<open>O_APPEND\<close>.
\<close>

definition motd_world :: "kernel world" where
  "motd_world =
     boot_world\<lparr>kern := boot\<lparr>fdtab := fdtab boot @
        [Some \<lparr>of_path = ''/etc/motd'', of_flags = O_RDWR, of_pos = 0\<rparr>]\<rparr>\<rparr>"




section \<open>The specification's words\<close>

text \<open>
  The result convention of the specification for a call that answers 0 or \<open>-1\<close>: the
  handler's result is 0 when the underlying call did not fail and the negated \<^verbatim>\<open>errno\<close>
  of that call when it did, and the handler leaves the process state as that one call
  left it.
\<close>

definition result_convention :: "cint \<times> 'k world \<Rightarrow> cint \<times> 'k world \<Rightarrow> bool" where
  "result_convention underlying handled =
     (snd handled = snd underlying \<and>
      fst handled = (if fst underlying = - 1 then - errno (snd underlying) else 0))"

text \<open>The same for a call with an output buffer, which the handler leaves as the call did.\<close>

definition result_convention_buf ::
  "(cint \<times> 'a) \<times> 'k world \<Rightarrow> (cint \<times> 'a) \<times> 'k world \<Rightarrow> bool" where
  "result_convention_buf underlying handled =
     (result_convention (fst (fst underlying), snd underlying) (fst (fst handled), snd handled) \<and>
      snd (fst handled) = snd (fst underlying))"


text \<open>The three operations that the specification lets store a handle.\<close>

fun opens_session :: "'b request \<Rightarrow> bool" where
  "opens_session (Op_open path) = True"
| "opens_session (Op_create path mode) = True"
| "opens_session (Op_opendir path) = True"
| "opens_session req = False"

text \<open>The operations whose handler has no \<^verbatim>\<open>fi\<close> parameter.\<close>

fun path_based :: "'b request \<Rightarrow> bool" where
  "path_based (Op_access path mode) = True"
| "path_based (Op_getattr path stbuf) = True"
| "path_based (Op_readlink path buf bufsize) = True"
| "path_based (Op_mknod path mode dev) = True"
| "path_based (Op_mkdir path mode) = True"
| "path_based (Op_unlink path) = True"
| "path_based (Op_rmdir path) = True"
| "path_based (Op_link oldpath newpath) = True"
| "path_based (Op_symlink target linkpath) = True"
| "path_based (Op_rename oldpath newpath) = True"
| "path_based (Op_chmod path mode) = True"
| "path_based (Op_chown path user grp) = True"
| "path_based (Op_truncate path len) = True"
| "path_based (Op_getxattr path name val sz) = True"
| "path_based (Op_setxattr path name val sz xflags) = True"
| "path_based (Op_removexattr path name) = True"
| "path_based (Op_listxattr path lst sz) = True"
| "path_based (Op_statfs path buf) = True"
| "path_based (Op_utimens path tv) = True"
| "path_based req = False"

text \<open>A reply without the session record.\<close>

definition answer :: "('b, 'k) reply option \<Rightarrow> ((cint \<times> 'b outbuf) \<times> 'k world) option" where
  "answer rep = map_option (\<lambda>((r, out, fi1), w1). ((r, out), w1)) rep"

section \<open>Conversions between the C integer types\<close>

text \<open>
  An \<^verbatim>\<open>int\<close> stored in the 64-bit handle slot and read back as an \<^verbatim>\<open>int\<close> is the same
  \<^verbatim>\<open>int\<close>; the stored value is \<open>-1\<close> (or 0) exactly when the \<^verbatim>\<open>int\<close> was; negating a
  positive error code does not overflow; a 64-bit count that fits an \<^verbatim>\<open>int\<close> is not
  changed by the conversion to \<^verbatim>\<open>int\<close>; a count that is not negative is not the
  failure value \<open>-1\<close>.
\<close>

lemma scast_int_eq_minus1: "((scast (r :: 32 word) :: 64 word) = - 1) = (r = - 1)"
proof
  assume "(scast r :: 64 word) = - 1"
  then have "sint (scast r :: 64 word) = - 1" by simp
  moreover have "sint (scast r :: 64 word) = sint r"
    by (rule sint_up_scast) (simp add: is_up)
  ultimately have "sint r = sint (- 1 :: 32 word)" by simp
  then show "r = - 1" by (rule signed_word_eqI)
next
  assume "r = - 1" then show "(scast r :: 64 word) = - 1" by simp
qed

lemma scast_int_eq_0: "((scast (r :: 32 word) :: 64 word) = 0) = (r = 0)"
proof
  assume "(scast r :: 64 word) = 0"
  then have "sint (scast r :: 64 word) = 0" by simp
  moreover have "sint (scast r :: 64 word) = sint r"
    by (rule sint_up_scast) (simp add: is_up)
  ultimately have "sint r = sint (0 :: 32 word)" by simp
  then show "r = 0" by (rule signed_word_eqI)
next
  assume "r = 0" then show "(scast r :: 64 word) = 0" by simp
qed

lemma scast_ucast_fd: "(ucast (scast (r :: 32 word) :: 64 word) :: 32 word) = r"
  by (rule bit_word_eqI) (auto simp: bit_simps)

lemma sint_neg_errno: "0 < sint (e :: 32 word) \<Longrightarrow> sint (- e) = - sint e"
proof -
  assume pos: "0 < sint e"
  have "sint e < 2 ^ 31" using sint_lt [of e] by simp
  with pos have "signed_take_bit 31 (- sint e) = - sint e"
    by (intro signed_take_bit_int_eq_self) auto
  then show ?thesis by (simp add: sint_word_minus)
qed

lemma ucast_count:
  "0 \<le> sint (n :: 64 word) \<Longrightarrow> sint n \<le> 2147483647 \<Longrightarrow> sint (ucast n :: 32 word) = sint n"
proof -
  assume a: "0 \<le> sint n" and b: "sint n \<le> 2147483647"
  have "sint n < 2 ^ 64" using b by simp
  with a have "take_bit 64 (sint n) = sint n"
    by (intro take_bit_int_eq_self) auto
  then have "sint n = uint n" by (simp add: uint_sint)
  have lo: "- (2 ^ 31) \<le> uint n"
  proof -
    have "(0::int) \<le> uint n" by (rule uint_nonnegative)
    moreover have "- (2 ^ 31) \<le> (0::int)" by simp
    ultimately show ?thesis by (rule order_trans [rotated])
  qed
  have hi: "uint n < 2 ^ 31" using b \<open>sint n = uint n\<close> by simp
  have "signed_take_bit 31 (uint n) = uint n"
    using lo hi by (rule signed_take_bit_int_eq_self)
  then show ?thesis using \<open>sint n = uint n\<close> by (simp add: signed_ucast_eq)
qed

lemma nonneg_count_not_failed: "0 \<le> sint (n :: 64 word) \<Longrightarrow> n \<noteq> - 1"
  by auto

section \<open>Unfolding the reference system\<close>

lemmas errno_defs = ENOENT_def EBADF_def ENOMEM_def ENOTDIR_def EISDIR_def EINVAL_def
  EMFILE_def ENOSYS_def ELOOP_def

lemmas flag_defs = O_RDONLY_def O_WRONLY_def O_RDWR_def O_ACCMODE_def O_CREAT_def O_TRUNC_def
  O_APPEND_def AT_FDCWD_def UTIME_NOW_def UTIME_OMIT_def OPEN_MAX_def

lemmas boot_defs = boot_world_def boot_def boot_nodes_def tty_def etc_entries_def epoch_def

lemmas table_defs = install_def slot_def vacate_def fd_lookup_def dir_lookup_def
  readable_def writable_def appending_def write_pos_def transfer_len_def MAX_RW_COUNT_def
  fail_def fail_buf_def

lemma ref_os_sel:
  "sys_open ref_os = k_open" "sys_creat ref_os = k_creat" "sys_close ref_os = k_close"
  "sys_pread ref_os = k_pread" "sys_pwrite ref_os = k_pwrite"
  "sys_readlink ref_os = k_readlink" "sys_utimensat ref_os = k_utimensat"
  "sys_opendir ref_os = k_opendir" "sys_closedir ref_os = k_closedir"
  "sys_seekdir ref_os = k_seekdir" "sys_readdir ref_os = k_readdir"
  by (simp_all add: ref_os_def)


lemma slot_install: "slot (install tab x) (first_free tab) = Some x"
proof (induction tab rule: first_free.induct)
  case 1 show ?case by (simp add: slot_def install_def)
next
  case (2 t) show ?case by (simp add: slot_def install_def)
next
  case (3 y t)
  then show ?case by (auto simp: slot_def install_def Let_def split: if_splits)
qed

section \<open>The path-based node and metadata operations\<close>

lemma mirror_access_conv:
  "result_convention (sys_access os path mode w) (mirror_access os path mode w)"
  by (simp add: result_convention_def mirror_access_def split: prod.splits)

lemma mirror_getattr_conv:
  "result_convention_buf (sys_stat os path stbuf w) (mirror_getattr os path stbuf w)"
  by (simp add: result_convention_buf_def result_convention_def mirror_getattr_def split: prod.splits)

lemma mirror_mknod_conv:
  "result_convention (sys_mknod os path mode dev w) (mirror_mknod os path mode dev w)"
  by (simp add: result_convention_def mirror_mknod_def split: prod.splits)

lemma mirror_mkdir_conv:
  "result_convention (sys_mkdir os path mode w) (mirror_mkdir os path mode w)"
  by (simp add: result_convention_def mirror_mkdir_def split: prod.splits)

lemma mirror_unlink_conv:
  "result_convention (sys_unlink os path w) (mirror_unlink os path w)"
  by (simp add: result_convention_def mirror_unlink_def split: prod.splits)

lemma mirror_rmdir_conv:
  "result_convention (sys_rmdir os path w) (mirror_rmdir os path w)"
  by (simp add: result_convention_def mirror_rmdir_def split: prod.splits)

lemma mirror_link_conv:
  "result_convention (sys_link os oldpath newpath w) (mirror_link os oldpath newpath w)"
  by (simp add: result_convention_def mirror_link_def split: prod.splits)

lemma mirror_symlink_conv:
  "result_convention (sys_symlink os target linkpath (printf (symlink_notice target linkpath) w))
     (mirror_symlink os target linkpath w)"
  by (simp add: result_convention_def mirror_symlink_def split: prod.splits)

lemma mirror_rename_conv:
  "result_convention (sys_rename os oldpath newpath w) (mirror_rename os oldpath newpath w)"
  by (simp add: result_convention_def mirror_rename_def split: prod.splits)

lemma mirror_chmod_conv:
  "result_convention (sys_chmod os path mode w) (mirror_chmod os path mode w)"
  by (simp add: result_convention_def mirror_chmod_def split: prod.splits)

lemma mirror_chown_conv:
  "result_convention (sys_chown os path user grp w) (mirror_chown os path user grp w)"
  by (simp add: result_convention_def mirror_chown_def split: prod.splits)

lemma mirror_truncate_conv:
  "result_convention (sys_truncate os path len w) (mirror_truncate os path len w)"
  by (simp add: result_convention_def mirror_truncate_def split: prod.splits)

lemma mirror_setxattr_conv:
  "result_convention (sys_setxattr os path name val sz xflags w)
     (mirror_setxattr os path name val sz xflags w)"
  by (simp add: result_convention_def mirror_setxattr_def split: prod.splits)

lemma mirror_removexattr_conv:
  "result_convention (sys_removexattr os path name w) (mirror_removexattr os path name w)"
  by (simp add: result_convention_def mirror_removexattr_def split: prod.splits)

lemma mirror_statfs_conv:
  "result_convention_buf (sys_statvfs os path buf w) (mirror_statfs os path buf w)"
  by (simp add: result_convention_buf_def result_convention_def mirror_statfs_def split: prod.splits)

text \<open>
  The negation of an error code is exact: error codes are positive, and the negation of a
  positive \<^verbatim>\<open>int\<close> does not overflow (\<open>sint_neg_errno\<close>).

  Claim C2. For every underlying system, every argument and every process state, each of
  \<^verbatim>\<open>access\<close>, \<^verbatim>\<open>getattr\<close>, \<^verbatim>\<open>mknod\<close>, \<^verbatim>\<open>mkdir\<close>, \<^verbatim>\<open>unlink\<close>, \<^verbatim>\<open>rmdir\<close>,
  \<^verbatim>\<open>link\<close>, \<^verbatim>\<open>symlink\<close>, \<^verbatim>\<open>rename\<close>, \<^verbatim>\<open>chmod\<close>, \<^verbatim>\<open>chown\<close>, \<^verbatim>\<open>truncate\<close>,
  \<^verbatim>\<open>setxattr\<close>, \<^verbatim>\<open>removexattr\<close> and \<^verbatim>\<open>statfs\<close> returns 0 when its underlying call
  does not fail and the negation of that call's \<^verbatim>\<open>errno\<close> when it does, and leaves the
  process state (and the output buffer of \<^verbatim>\<open>getattr\<close> and \<^verbatim>\<open>statfs\<close>) exactly as that
  one call left it: the call is made once, and nothing is translated, retried or
  suppressed. For \<^verbatim>\<open>symlink\<close> the call is made after the notice was printed.
\<close>

theorem path_operations_negate_errno:
  "result_convention (sys_access os path mode w) (mirror_access os path mode w) \<and>
   result_convention_buf (sys_stat os path stbuf w) (mirror_getattr os path stbuf w) \<and>
   result_convention (sys_mknod os path mode dev w) (mirror_mknod os path mode dev w) \<and>
   result_convention (sys_mkdir os path mode w) (mirror_mkdir os path mode w) \<and>
   result_convention (sys_unlink os path w) (mirror_unlink os path w) \<and>
   result_convention (sys_rmdir os path w) (mirror_rmdir os path w) \<and>
   result_convention (sys_link os path newpath w) (mirror_link os path newpath w) \<and>
   result_convention (sys_symlink os path newpath (printf (symlink_notice path newpath) w))
     (mirror_symlink os path newpath w) \<and>
   result_convention (sys_rename os path newpath w) (mirror_rename os path newpath w) \<and>
   result_convention (sys_chmod os path mode w) (mirror_chmod os path mode w) \<and>
   result_convention (sys_chown os path user grp w) (mirror_chown os path user grp w) \<and>
   result_convention (sys_truncate os path len w) (mirror_truncate os path len w) \<and>
   result_convention (sys_setxattr os path name val sz xflags w)
     (mirror_setxattr os path name val sz xflags w) \<and>
   result_convention (sys_removexattr os path name w) (mirror_removexattr os path name w) \<and>
   result_convention_buf (sys_statvfs os path vbuf w) (mirror_statfs os path vbuf w)"
  by (intro conjI mirror_access_conv mirror_getattr_conv mirror_mknod_conv mirror_mkdir_conv
      mirror_unlink_conv mirror_rmdir_conv mirror_link_conv mirror_symlink_conv
      mirror_rename_conv mirror_chmod_conv mirror_chown_conv mirror_truncate_conv
      mirror_setxattr_conv mirror_removexattr_conv mirror_statfs_conv)

section \<open>\<^verbatim>\<open>readlink\<close>\<close>

lemma mirror_readlink_general:
  "sys_readlink os path buf bufsize w = ((n, buf1), w1) \<Longrightarrow>
   mirror_readlink os path buf bufsize w = ((if n = - 1 then - errno w1 else 0, buf1), w1)"
  by (simp add: mirror_readlink_def)

lemma short_length_not_failure: "m < 2 ^ 63 \<Longrightarrow> (of_nat m :: 64 word) \<noteq> - 1"
proof 
  assume a: "m < 2 ^ 63" and b: "(of_nat m :: 64 word) = - 1"
  from a have "m < 2 ^ 64" by (rule less_trans) simp
  then have "unat (of_nat m :: 64 word) = m" by (intro of_nat_inverse [OF refl]) simp
  with b have "m = unat (- 1 :: 64 word)" by simp
  with a show False by (simp add: unsigned_minus_1_eq_mask mask_eq_exp_minus_1)
qed

lemma mirror_readlink_ref_link:
  assumes "bufsize \<noteq> 0" "length target < 2 ^ 63" "nodes (kern kw) path = Some (Symlink target)"
  shows "mirror_readlink ref_os path buf bufsize kw =
     ((0, take (unat bufsize) target @ drop (length (take (unat bufsize) target)) buf), kw)"
proof -
  have "length (take (unat bufsize) target) < 2 ^ 63"
    using assms(2) by simp
  from short_length_not_failure [OF this] assms(1,3) show ?thesis
    by (simp add: mirror_readlink_def ref_os_sel k_readlink_def Let_def)
qed

lemma mirror_readlink_ref_other:
  assumes "nodes (kern kw) path = Some (Regular content) \<or>
    nodes (kern kw) path = Some (Directory entries)"
  shows "mirror_readlink ref_os path buf bufsize kw = ((- EINVAL, buf), kw\<lparr>errno := EINVAL\<rparr>)"
  using assms by (auto simp: mirror_readlink_def ref_os_sel k_readlink_def fail_buf_def)

text \<open>
  Claim C6, amended. For every underlying system, path and buffer, \<^verbatim>\<open>readlink\<close> returns
  0 when the underlying \<^verbatim>\<open>readlink\<close> does not fail and the negated \<^verbatim>\<open>errno\<close> when it
  does, with the buffer as the call left it. On the reference system: for a symbolic link
  (and a buffer size other than 0) the result is 0 and the buffer starts with the target,
  cut to the buffer size when it is longer, the rest of the buffer unchanged; for a path
  that names a regular file or a directory the result is \<open>-EINVAL\<close>. A buffer too small
  for the target is not an error.
\<close>

theorem mirror_readlink_result:
  "(sys_readlink os path buf bufsize w = ((n, buf1), w1) \<longrightarrow>
      mirror_readlink os path buf bufsize w = ((if n = - 1 then - errno w1 else 0, buf1), w1)) \<and>
   (bufsize \<noteq> 0 \<and> length target < 2 ^ 63 \<and> nodes (kern kw) path = Some (Symlink target) \<longrightarrow>
      mirror_readlink ref_os path buf bufsize kw =
        ((0, take (unat bufsize) target @ drop (length (take (unat bufsize) target)) buf), kw)) \<and>
   (nodes (kern kw) path = Some (Regular content) \<or>
    nodes (kern kw) path = Some (Directory entries) \<longrightarrow>
      mirror_readlink ref_os path buf bufsize kw = ((- EINVAL, buf), kw\<lparr>errno := EINVAL\<rparr>))"
  using mirror_readlink_general [of os path buf bufsize w n buf1 w1]
    mirror_readlink_ref_link [of bufsize target kw path buf]
    mirror_readlink_ref_other [of kw path content entries buf bufsize]
  by blast

text \<open>
  Counterexample to C6 as stated: \<^verbatim>\<open>/etc/mtab\<close> is a symbolic link to the 12 bytes
  \<^verbatim>\<open>/proc/mounts\<close>; with a buffer of 4 bytes the underlying \<^verbatim>\<open>readlink\<close> returns 4 and
  \<^verbatim>\<open>readlink\<close> returns 0, not a negated error code, with the first 4 bytes of the target
  in the buffer.
\<close>

theorem mirror_readlink_short_buffer_succeeds:
  "nodes (kern boot_world) ''/etc/mtab'' = Some (Symlink ''/proc/mounts'') \<and>
   sys_readlink ref_os ''/etc/mtab'' ''....'' 4 boot_world = ((4, ''/pro''), boot_world) \<and>
   mirror_readlink ref_os ''/etc/mtab'' ''....'' 4 boot_world = ((0, ''/pro''), boot_world)"
  by (simp add: mirror_readlink_def ref_os_sel k_readlink_def boot_defs Let_def)

text \<open>
  Witness for C6: with a buffer of 16 bytes the link \<^verbatim>\<open>/etc/mtab\<close> is read whole and the
  result is 0; the regular file \<^verbatim>\<open>/etc/motd\<close> gives \<open>-EINVAL\<close>; the missing
  \<^verbatim>\<open>/etc/none\<close> gives \<open>-ENOENT\<close>.
\<close>

theorem mirror_readlink_result_witness:
  "mirror_readlink ref_os ''/etc/mtab'' ''................'' 16 boot_world =
     ((0, ''/proc/mounts....''), boot_world) \<and>
   mirror_readlink ref_os ''/etc/motd'' ''................'' 16 boot_world =
     ((- EINVAL, ''................''), boot_world\<lparr>errno := EINVAL\<rparr>) \<and>
   mirror_readlink ref_os ''/etc/none'' ''................'' 16 boot_world =
     ((- ENOENT, ''................''), boot_world\<lparr>errno := ENOENT\<rparr>)"
proof -
  have a: "(16 :: size_t) \<noteq> 0 \<and> length ''/proc/mounts'' < 2 ^ 63 \<and>
      nodes (kern boot_world) ''/etc/mtab'' = Some (Symlink ''/proc/mounts'')"
    by (simp add: boot_defs)
  have b: "nodes (kern boot_world) ''/etc/motd'' = Some (Regular ''hello'') \<or>
      nodes (kern boot_world) ''/etc/motd'' = Some (Directory [])"
    by (simp add: boot_defs)
  have c: "sys_readlink ref_os ''/etc/none'' ''................'' 16 boot_world =
      ((- 1, ''................''), boot_world\<lparr>errno := ENOENT\<rparr>)"
    by (simp add: ref_os_sel k_readlink_def boot_defs fail_buf_def)
  note t = mirror_readlink_result
  show ?thesis
    using t [where bufsize = 16 and target = "''/proc/mounts''" and kw = boot_world
          and path = "''/etc/mtab''" and buf = "''................''",
          THEN conjunct2, THEN conjunct1, rule_format, OF a]
      t [where kw = boot_world and path = "''/etc/motd''" and content = "''hello''"
          and entries = "[]" and buf = "''................''" and bufsize = 16,
          THEN conjunct2, THEN conjunct2, rule_format, OF b]
      t [where os = ref_os and path = "''/etc/none''" and buf = "''................''"
          and bufsize = 16 and w = boot_world, THEN conjunct1, rule_format, OF c]
    by simp
qed

section \<open>\<^verbatim>\<open>readdir\<close>\<close>













section \<open>\<^verbatim>\<open>open\<close>\<close>

text \<open>
  What \<^verbatim>\<open>open\<close> does over every underlying system: the descriptor is stored, also when
  it is \<open>-1\<close>, and the result is the negated \<^verbatim>\<open>errno\<close> whenever the descriptor is not 0.
\<close>

lemma mirror_open_result:
  "sys_open os path (flags fi) w = (r, w1) \<Longrightarrow>
   mirror_open os path fi w = ((if r \<noteq> 0 then - errno w1 else 0, fi\<lparr>fh := scast r\<rparr>), w1)"
  by (simp add: mirror_open_def scast_int_eq_0)

text \<open>
  Claim C1 says that \<^verbatim>\<open>open\<close> returns 0 whenever the underlying \<^verbatim>\<open>open\<close> returns a
  valid descriptor. The code does not: on the installation, a first \<^verbatim>\<open>open\<close> of the
  missing \<^verbatim>\<open>/etc/none\<close> fails and leaves \<^verbatim>\<open>ENOENT\<close> in \<^verbatim>\<open>errno\<close>; the next \<^verbatim>\<open>open\<close>,
  of the existing \<^verbatim>\<open>/etc/motd\<close>, gets descriptor 3 from the underlying call, stores it in
  the session record, and returns \<open>-ENOENT\<close>.
\<close>

theorem mirror_open_valid_descriptor_reported_failed:
  "mirror_open ref_os ''/etc/none'' \<lparr>flags = O_RDONLY, fh = 0\<rparr> boot_world =
     ((- ENOENT, \<lparr>flags = O_RDONLY, fh = - 1\<rparr>), boot_world\<lparr>errno := ENOENT\<rparr>) \<and>
   fst (sys_open ref_os ''/etc/motd'' O_RDONLY (boot_world\<lparr>errno := ENOENT\<rparr>)) = 3 \<and>
   fst (mirror_open ref_os ''/etc/motd'' \<lparr>flags = O_RDONLY, fh = 0\<rparr> (boot_world\<lparr>errno := ENOENT\<rparr>)) =
     (- ENOENT, \<lparr>flags = O_RDONLY, fh = 3\<rparr>)"
  by (simp add: mirror_open_def ref_os_sel k_open_def k_open3_def boot_defs table_defs
      flag_defs errno_defs)

section \<open>\<^verbatim>\<open>create\<close>\<close>

text \<open>A descriptor of the reference system is a small non-negative \<^verbatim>\<open>int\<close>.\<close>

lemma fd_unat: "i < OPEN_MAX \<Longrightarrow> unat (of_nat i :: cint) = i"
  by (intro of_nat_inverse [OF refl]) (simp add: OPEN_MAX_def)

lemma fd_not_negative: "i < OPEN_MAX \<Longrightarrow> \<not> (of_nat i :: cint) <s 0"
proof -
  assume a: "i < OPEN_MAX"
  have "uint (of_nat i :: cint) = int i"
    using fd_unat [OF a] by (metis uint_nat)
  moreover have "signed_take_bit 31 (int i) = int i"
    using a by (intro signed_take_bit_int_eq_self) (simp_all add: OPEN_MAX_def)
  ultimately have "sint (of_nat i :: cint) = int i"
    by (simp add: sint_uint)
  then show ?thesis by (simp add: word_sless_alt)
qed

lemma fd_not_failure: "i < OPEN_MAX \<Longrightarrow> (of_nat i :: cint) \<noteq> - 1"
  using fd_not_negative [of i] by (auto simp: word_sless_alt)

lemma fd_lookup_install:
  assumes "first_free (fdtab k) < OPEN_MAX"
  shows "fd_lookup (k\<lparr>nodes := nd, fdtab := install (fdtab k) f\<rparr>)
           (ucast (scast (of_nat (first_free (fdtab k)) :: cint) :: uint64_t)) = Some f"
  using fd_unat [OF assms] fd_not_negative [OF assms]
  by (simp add: fd_lookup_def scast_ucast_fd slot_install)

lemma k_pread_unreadable:
  "fd_lookup (kern w) fd = Some f \<Longrightarrow> \<not> readable f \<Longrightarrow>
   k_pread fd buf sz off w = ((- 1, buf), w\<lparr>errno := EBADF\<rparr>)"
  by (simp add: k_pread_def fail_buf_def)

lemma k_pwrite_writable:
  "fd_lookup (kern w) fd = Some f \<Longrightarrow> writable f \<Longrightarrow> \<not> off <s 0 \<Longrightarrow>
   nodes (kern w) (of_path f) = Some (Regular content) \<Longrightarrow>
   k_pwrite fd buf sz off w =
     (of_nat (length (take (transfer_len sz) buf)),
      w\<lparr>kern := (kern w)\<lparr>nodes := (nodes (kern w))(of_path f :=
            Some (Regular (put_at content (write_pos f content off)
              (take (transfer_len sz) buf))))\<rparr>\<rparr>)"
  by (simp add: k_pwrite_def Let_def)

lemma creat_flags:
  "writable \<lparr>of_path = p, of_flags = O_WRONLY OR O_CREAT OR O_TRUNC, of_pos = 0\<rparr>"
  "\<not> readable \<lparr>of_path = p, of_flags = O_WRONLY OR O_CREAT OR O_TRUNC, of_pos = 0\<rparr>"
  "(O_WRONLY OR O_CREAT OR O_TRUNC) AND O_CREAT \<noteq> 0"
  "(O_WRONLY OR O_CREAT OR O_TRUNC) AND O_TRUNC \<noteq> 0"
  "\<not> appending \<lparr>of_path = p, of_flags = O_WRONLY OR O_CREAT OR O_TRUNC, of_pos = 0\<rparr>"
  by (simp_all add: writable_def readable_def appending_def flag_defs)

lemma mirror_create_result:
  "sys_creat os path mode w = (r, w1) \<Longrightarrow>
   mirror_create os path mode fi w = ((if r = - 1 then - errno w1 else 0, fi\<lparr>fh := scast r\<rparr>), w1)"
  by (simp add: mirror_create_def scast_int_eq_minus1)

lemma k_creat_ok:
  assumes "nodes (kern w) path = None \<or> nodes (kern w) path = Some (Regular content)"
    and "first_free (fdtab (kern w)) < OPEN_MAX"
  shows "k_creat path mode w =
     (of_nat (first_free (fdtab (kern w))),
      w\<lparr>kern := (kern w)\<lparr>nodes := (nodes (kern w))(path := Some (Regular [])),
            fdtab := install (fdtab (kern w))
               \<lparr>of_path = path, of_flags = O_WRONLY OR O_CREAT OR O_TRUNC, of_pos = 0\<rparr>\<rparr>\<rparr>)"
  using assms by (auto simp: k_creat_def k_open3_def Let_def creat_flags)

text \<open>
  Claim C10. For every underlying system, \<^verbatim>\<open>create\<close> calls \<^verbatim>\<open>creat(path, mode)\<close>,
  stores what it returns in the handle slot, and returns the negated \<^verbatim>\<open>errno\<close> when the
  call fails and 0 otherwise. On the reference system, where \<^verbatim>\<open>creat\<close> is \<^verbatim>\<open>open\<close> with
  \<^verbatim>\<open>O_WRONLY|O_CREAT|O_TRUNC\<close>: when the path names a regular file or nothing, and a
  descriptor is free, the result is 0, the file exists afterwards with length zero, a
  positioned read through the stored handle fails with \<^verbatim>\<open>EBADF\<close>, and a positioned
  write through it succeeds and its bytes (as many as one call transfers) are the file's
  content.
\<close>

theorem mirror_create_truncates_write_only:
  "(sys_creat os path mode w = (r, w1) \<longrightarrow>
      mirror_create os path mode fi w =
        ((if r = - 1 then - errno w1 else 0, fi\<lparr>fh := scast r\<rparr>), w1)) \<and>
   ((nodes (kern kw) path = None \<or> nodes (kern kw) path = Some (Regular content)) \<and>
    first_free (fdtab (kern kw)) < OPEN_MAX \<longrightarrow>
      (case mirror_create ref_os path mode fi kw of
         ((res, fi1), kw1) \<Rightarrow>
           res = 0 \<and>
           nodes (kern kw1) path = Some (Regular []) \<and>
           sys_pread ref_os (ucast (fh fi1)) buf sz offset kw1 =
             ((- 1, buf), kw1\<lparr>errno := EBADF\<rparr>) \<and>
           fst (sys_pwrite ref_os (ucast (fh fi1)) buf sz 0 kw1) =
             of_nat (length (take (transfer_len sz) buf)) \<and>
           nodes (kern (snd (sys_pwrite ref_os (ucast (fh fi1)) buf sz 0 kw1))) path =
             Some (Regular (take (transfer_len sz) buf))))"
proof (intro conjI impI)
  assume "sys_creat os path mode w = (r, w1)"
  then show "mirror_create os path mode fi w =
        ((if r = - 1 then - errno w1 else 0, fi\<lparr>fh := scast r\<rparr>), w1)"
    by (rule mirror_create_result)
next
  assume a: "(nodes (kern kw) path = None \<or> nodes (kern kw) path = Some (Regular content)) \<and>
    first_free (fdtab (kern kw)) < OPEN_MAX"
  let ?i = "first_free (fdtab (kern kw))"
  let ?f = "\<lparr>of_path = path, of_flags = O_WRONLY OR O_CREAT OR O_TRUNC, of_pos = 0\<rparr>"
  let ?k1 = "(kern kw)\<lparr>nodes := (nodes (kern kw))(path := Some (Regular [])),
            fdtab := install (fdtab (kern kw)) ?f\<rparr>"
  let ?w1 = "kw\<lparr>kern := ?k1\<rparr>"
  let ?fi1 = "fi\<lparr>fh := scast (of_nat ?i :: cint)\<rparr>"
  from a have lim: "?i < OPEN_MAX" by simp
  from a have cr: "sys_creat ref_os path mode kw = (of_nat ?i, ?w1)"
    by (simp add: ref_os_sel k_creat_ok [where content = content])
  have mc: "mirror_create ref_os path mode fi kw = ((0, ?fi1), ?w1)"
    using mirror_create_result [OF cr, of fi] fd_not_failure [OF lim] by simp
  let ?fd = "ucast (scast (of_nat ?i :: cint) :: uint64_t) :: cint"
  have lk: "fd_lookup (kern ?w1) ?fd = Some ?f"
    using fd_lookup_install [OF lim] by simp
  have nd: "nodes (kern ?w1) (of_path ?f) = Some (Regular [])" by simp
  have rd: "sys_pread ref_os ?fd buf sz offset ?w1 = ((- 1, buf), ?w1\<lparr>errno := EBADF\<rparr>)"
    unfolding ref_os_sel by (rule k_pread_unreadable [OF lk creat_flags(2)])
  have z: "\<not> (0 :: off_t) <s 0" by (simp add: word_sless_alt)
  have wr: "sys_pwrite ref_os ?fd buf sz 0 ?w1 =
     (of_nat (length (take (transfer_len sz) buf)),
      ?w1\<lparr>kern := (kern ?w1)\<lparr>nodes := (nodes (kern ?w1))(of_path ?f :=
            Some (Regular (put_at [] (write_pos ?f [] (0 :: off_t))
              (take (transfer_len sz) buf))))\<rparr>\<rparr>)"
    unfolding ref_os_sel by (rule k_pwrite_writable [OF lk creat_flags(1) z nd])
  show "case mirror_create ref_os path mode fi kw of
         ((res, fi1), kw1) \<Rightarrow>
           res = 0 \<and>
           nodes (kern kw1) path = Some (Regular []) \<and>
           sys_pread ref_os (ucast (fh fi1)) buf sz offset kw1 =
             ((- 1, buf), kw1\<lparr>errno := EBADF\<rparr>) \<and>
           fst (sys_pwrite ref_os (ucast (fh fi1)) buf sz 0 kw1) =
             of_nat (length (take (transfer_len sz) buf)) \<and>
           nodes (kern (snd (sys_pwrite ref_os (ucast (fh fi1)) buf sz 0 kw1))) path =
             Some (Regular (take (transfer_len sz) buf))"
    by (simp add: mc rd wr put_at_def write_pos_def creat_flags(5))
qed

text \<open>
  Witness for C10: \<^verbatim>\<open>create\<close> of the existing \<^verbatim>\<open>/etc/motd\<close> on the installation returns 0
  with descriptor 3 stored and the file emptied; reading through the handle fails, writing
  three bytes returns 3; \<^verbatim>\<open>create\<close> of the directory \<^verbatim>\<open>/etc\<close> returns \<open>-EISDIR\<close>.
\<close>

theorem mirror_create_truncates_write_only_witness:
  "fst (mirror_create ref_os ''/etc/motd'' 420 \<lparr>flags = 0, fh = 0\<rparr> boot_world) =
     (0, \<lparr>flags = 0, fh = 3\<rparr>) \<and>
   nodes (kern (snd (mirror_create ref_os ''/etc/motd'' 420 \<lparr>flags = 0, fh = 0\<rparr> boot_world)))
     ''/etc/motd'' = Some (Regular []) \<and>
   fst (fst (sys_pread ref_os 3 ''.....'' 5 0
     (snd (mirror_create ref_os ''/etc/motd'' 420 \<lparr>flags = 0, fh = 0\<rparr> boot_world)))) = - 1 \<and>
   fst (sys_pwrite ref_os 3 ''bye'' 3 0
     (snd (mirror_create ref_os ''/etc/motd'' 420 \<lparr>flags = 0, fh = 0\<rparr> boot_world))) = 3 \<and>
   fst (mirror_create ref_os ''/etc'' 420 \<lparr>flags = 0, fh = 0\<rparr> boot_world) =
     (- EISDIR, \<lparr>flags = 0, fh = - 1\<rparr>)"
proof -
  have mc: "mirror_create ref_os ''/etc/motd'' 420 \<lparr>flags = 0, fh = 0\<rparr> boot_world =
      ((0, \<lparr>flags = 0, fh = 3\<rparr>),
       boot_world\<lparr>kern := boot\<lparr>nodes := (nodes boot)(''/etc/motd'' := Some (Regular [])),
          fdtab := fdtab boot @
            [Some \<lparr>of_path = ''/etc/motd'', of_flags = O_WRONLY OR O_CREAT OR O_TRUNC, of_pos = 0\<rparr>]\<rparr>\<rparr>)"
    by (simp add: mirror_create_def ref_os_sel k_creat_def k_open3_def boot_defs table_defs
        flag_defs)
  have hyp: "(nodes (kern boot_world) ''/etc/motd'' = None \<or>
       nodes (kern boot_world) ''/etc/motd'' = Some (Regular ''hello'')) \<and>
      first_free (fdtab (kern boot_world)) < OPEN_MAX"
    by (simp add: boot_defs flag_defs)
  have cr: "sys_creat ref_os ''/etc'' 420 boot_world = (- 1, boot_world\<lparr>errno := EISDIR\<rparr>)"
    by (simp add: ref_os_sel k_creat_def k_open3_def boot_defs table_defs flag_defs)
  note t = mirror_create_truncates_write_only
  show ?thesis
    using t [where kw = boot_world and path = "''/etc/motd''" and content = "''hello''"
          and mode = 420 and fi = "\<lparr>flags = 0, fh = 0\<rparr>" and buf = "''.....''" and sz = 5
          and offset = 0, THEN conjunct2, rule_format, OF hyp]
      t [where kw = boot_world and path = "''/etc/motd''" and content = "''hello''"
          and mode = 420 and fi = "\<lparr>flags = 0, fh = 0\<rparr>" and buf = "''bye''" and sz = 3
          and offset = 0, THEN conjunct2, rule_format, OF hyp]
      t [where os = ref_os and path = "''/etc''" and mode = 420 and w = boot_world
          and fi = "\<lparr>flags = 0, fh = 0\<rparr>", THEN conjunct1, rule_format, OF cr]
    by (simp add: mc transfer_len_def MAX_RW_COUNT_def)
qed

section \<open>\<^verbatim>\<open>release\<close>\<close>

text \<open>
  Claim C4. For every session record, \<^verbatim>\<open>release\<close> invokes the underlying \<^verbatim>\<open>close\<close> on
  the session's file handle (the handle slot converted to \<^verbatim>\<open>int\<close>) and returns 0
  whatever \<^verbatim>\<open>close\<close> answered: the process state is the one \<^verbatim>\<open>close\<close> left, the session
  record is untouched, and the answer of \<^verbatim>\<open>close\<close> appears nowhere in the result.
\<close>

theorem mirror_release_closes_and_returns_zero:
  "mirror_release os path fi w = ((0, fi), snd (sys_close os (ucast (fh fi)) w))"
  by (simp add: mirror_release_def split: prod.splits)

text \<open>
  On the reference system: releasing a handle that is not open makes \<^verbatim>\<open>close\<close> fail with
  \<^verbatim>\<open>EBADF\<close>, and the result is still 0.
\<close>

lemma mirror_release_discards_failure:
  "sys_close ref_os 7 boot_world = (- 1, boot_world\<lparr>errno := EBADF\<rparr>) \<and>
   mirror_release ref_os ''/etc/motd'' \<lparr>flags = O_RDONLY, fh = 7\<rparr> boot_world =
     ((0, \<lparr>flags = O_RDONLY, fh = 7\<rparr>), boot_world\<lparr>errno := EBADF\<rparr>)"
  by (simp add: mirror_release_def ref_os_sel k_close_def boot_defs table_defs flag_defs
      errno_defs word_sless_alt)

section \<open>\<^verbatim>\<open>read\<close>\<close>

text \<open>What a positioned transfer of the reference system answers.\<close>

lemma sint_transfer_count:
  "m \<le> MAX_RW_COUNT \<Longrightarrow> sint (of_nat m :: ssize_t) = int m"
proof -
  assume a: "m \<le> MAX_RW_COUNT"
  then have "m < 2 ^ 64" by (simp add: MAX_RW_COUNT_def)
  then have "unat (of_nat m :: ssize_t) = m"
    by (intro of_nat_inverse [OF refl]) simp
  then have "uint (of_nat m :: ssize_t) = int m"
    by (metis uint_nat)
  moreover have "signed_take_bit 63 (int m) = int m"
    using a by (intro signed_take_bit_int_eq_self) (simp_all add: MAX_RW_COUNT_def)
  ultimately show ?thesis by (simp add: sint_uint)
qed

lemma transfer_result_count: "m \<le> MAX_RW_COUNT \<Longrightarrow> transfer_result (of_nat m)"
  using sint_transfer_count [of m]
  by (simp add: transfer_result_def MAX_RW_COUNT_def)

lemma transfer_result_failure: "transfer_result (- 1)"
  by (simp add: transfer_result_def)


lemma transfer_len_le: "transfer_len sz \<le> MAX_RW_COUNT"
  by (simp add: transfer_len_def)


lemma k_pread_transfer: "transfer_result (fst (fst (k_pread fd buf sz off w)))"
  by (auto simp: k_pread_def Let_def fail_buf_def transfer_result_failure
      min_le_iff_disj transfer_len_le intro!: transfer_result_count
      split: option.splits node.splits)


text \<open>
  Over every underlying system whose positioned read answers \<open>-1\<close> or a count of at most
  \<^verbatim>\<open>0x7ffff000\<close>: the count is not changed by the conversion to \<^verbatim>\<open>int\<close>.
\<close>

lemma transfer_fits_int:
  "transfer_result n \<Longrightarrow> n \<noteq> - 1 \<Longrightarrow> sint (ucast n :: cint) = sint n \<and> 0 \<le> sint n"
  by (auto simp: transfer_result_def intro: ucast_count)

lemma mirror_read_general:
  "sys_pread os (ucast (fh fi)) buf sz offset w = ((n, buf1), w1) \<Longrightarrow>
   mirror_read os path buf sz offset fi w = ((if n = - 1 then 0 else ucast n, buf1, fi), w1)"
  by (simp add: mirror_read_def)

text \<open>
  Claim C3. For every underlying system whose positioned read answers as Linux's does
  (\<open>-1\<close>, or a count of at most \<^verbatim>\<open>0x7ffff000\<close> bytes), and for every handle, buffer, size
  and offset: \<^verbatim>\<open>read\<close> returns 0, not a negative value, when the underlying read fails,
  and the number of bytes transferred (0 at the end of the stream), unchanged by the
  conversion to \<^verbatim>\<open>int\<close> and not negative, when it succeeds; the buffer and the process
  state are as the underlying read left them. The reference system answers so, and there
  the same holds for every handle, buffer, size, offset and state with no condition.
\<close>

theorem mirror_read_result:
  "(sys_pread os (ucast (fh fi)) buf sz offset w = ((n, buf1), w1) \<and> transfer_result n \<longrightarrow>
      mirror_read os path buf sz offset fi w =
        ((if n = - 1 then 0 else ucast n, buf1, fi), w1) \<and>
      (n \<noteq> - 1 \<longrightarrow> sint (ucast n :: cint) = sint n \<and> 0 \<le> sint n)) \<and>
   (case sys_pread ref_os (ucast (fh fi)) buf sz offset kw of
      ((m, kbuf1), kw1) \<Rightarrow>
        mirror_read ref_os path buf sz offset fi kw =
          ((if m = - 1 then 0 else ucast m, kbuf1, fi), kw1) \<and>
        (m \<noteq> - 1 \<longrightarrow> sint (ucast m :: cint) = sint m \<and> 0 \<le> sint m))"
proof (intro conjI impI)
  assume a: "sys_pread os (ucast (fh fi)) buf sz offset w = ((n, buf1), w1) \<and> transfer_result n"
  then show "mirror_read os path buf sz offset fi w =
        ((if n = - 1 then 0 else ucast n, buf1, fi), w1)"
    by (simp add: mirror_read_general)
  assume "n \<noteq> - 1"
  with a show "sint (ucast n :: cint) = sint n" and "0 \<le> sint n"
    using transfer_fits_int [of n] by simp_all
next
  obtain m kbuf1 kw1 where
    p: "sys_pread ref_os (ucast (fh fi)) buf sz offset kw = ((m, kbuf1), kw1)"
    by (metis prod.exhaust)
  have "transfer_result m"
    using k_pread_transfer [of "ucast (fh fi)" buf sz offset kw] p by (simp add: ref_os_sel)
  then show "case sys_pread ref_os (ucast (fh fi)) buf sz offset kw of
      ((m, kbuf1), kw1) \<Rightarrow>
        mirror_read ref_os path buf sz offset fi kw =
          ((if m = - 1 then 0 else ucast m, kbuf1, fi), kw1) \<and>
        (m \<noteq> - 1 \<longrightarrow> sint (ucast m :: cint) = sint m \<and> 0 \<le> sint m)"
    using mirror_read_general [OF p, of path] transfer_fits_int [of m] by (simp add: p)
qed

text \<open>
  The installation after \<^verbatim>\<open>/var/image\<close> was opened: \<^verbatim>\<open>errno\<close> is 0 there, so that
  \<^verbatim>\<open>open\<close> returned 0.
\<close>

lemma image_open:
  "mirror_open ref_os ''/var/image'' \<lparr>flags = O_RDWR, fh = 0\<rparr> boot_world =
     ((0, \<lparr>flags = O_RDWR, fh = 3\<rparr>), image_world)"
  by (simp add: image_world_def mirror_open_def ref_os_sel k_open_def k_open3_def boot_defs
      table_defs flag_defs errno_defs)

text \<open>
  Witness for C3: on the installation with \<^verbatim>\<open>/etc/motd\<close> open at descriptor 3, reading
  5 bytes from offset 0 returns 5 and the content; from offset 5, the end, it returns 0;
  through descriptor 7, which is not open, the underlying read fails with \<^verbatim>\<open>EBADF\<close> and
  the result is 0 again. Reading \<open>2\<^sup>3\<^sup>1\<close> bytes of \<^verbatim>\<open>/var/image\<close>, which has as many,
  transfers \<^verbatim>\<open>0x7ffff000\<close> bytes and returns 2147479552.
\<close>

theorem mirror_read_result_witness:
  "mirror_read ref_os ''/etc/motd'' ''.....'' 5 0 \<lparr>flags = O_RDWR, fh = 3\<rparr> motd_world =
     ((5, ''hello'', \<lparr>flags = O_RDWR, fh = 3\<rparr>), motd_world) \<and>
   mirror_read ref_os ''/etc/motd'' ''.....'' 5 5 \<lparr>flags = O_RDWR, fh = 3\<rparr> motd_world =
     ((0, ''.....'', \<lparr>flags = O_RDWR, fh = 3\<rparr>), motd_world) \<and>
   mirror_read ref_os ''/etc/motd'' ''.....'' 5 0 \<lparr>flags = O_RDWR, fh = 7\<rparr> motd_world =
     ((0, ''.....'', \<lparr>flags = O_RDWR, fh = 7\<rparr>), motd_world\<lparr>errno := EBADF\<rparr>) \<and>
   sint (fst (fst (mirror_read ref_os ''/var/image'' (replicate 2147483648 (CHR ''x''))
      2147483648 0 \<lparr>flags = O_RDWR, fh = 3\<rparr> image_world))) = 2147479552"
proof -
  have a: "sys_pread ref_os (ucast (fh \<lparr>flags = O_RDWR, fh = 3\<rparr>)) ''.....'' 5 0 motd_world =
      ((5, ''hello''), motd_world) \<and> transfer_result 5"
    by (simp add: motd_world_def ref_os_sel k_pread_def boot_defs table_defs flag_defs
        Let_def word_sless_alt transfer_result_def)
  have b: "sys_pread ref_os (ucast (fh \<lparr>flags = O_RDWR, fh = 3\<rparr>)) ''.....'' 5 5 motd_world =
      ((0, ''.....''), motd_world) \<and> transfer_result 0"
    by (simp add: motd_world_def ref_os_sel k_pread_def boot_defs table_defs flag_defs
        Let_def word_sless_alt transfer_result_def)
  have c: "sys_pread ref_os (ucast (fh \<lparr>flags = O_RDWR, fh = 7\<rparr>)) ''.....'' 5 0 motd_world =
      ((- 1, ''.....''), motd_world\<lparr>errno := EBADF\<rparr>) \<and> transfer_result (- 1)"
    by (simp add: motd_world_def ref_os_sel k_pread_def boot_defs table_defs flag_defs
        Let_def word_sless_alt transfer_result_def)
  have d: "fst (fst (sys_pread ref_os (ucast (fh \<lparr>flags = O_RDWR, fh = 3\<rparr>))
      (replicate 2147483648 (CHR ''x'')) 2147483648 0 image_world)) = 2147479552"
    by (simp add: image_world_def ref_os_sel k_pread_def boot_defs table_defs flag_defs
        Let_def word_sless_alt)
  note t = mirror_read_result
  show ?thesis
    using t [where os = ref_os and path = "''/etc/motd''", THEN conjunct1, rule_format, OF a]
      t [where os = ref_os and path = "''/etc/motd''", THEN conjunct1, rule_format, OF b]
      t [where os = ref_os and path = "''/etc/motd''", THEN conjunct1, rule_format, OF c]
      t [where path = "''/var/image''" and fi = "\<lparr>flags = O_RDWR, fh = 3\<rparr>"
          and buf = "replicate 2147483648 (CHR ''x'')" and sz = 2147483648 and offset = 0
          and kw = image_world, THEN conjunct2]
      d
    by (auto split: prod.splits)
qed

section \<open>\<^verbatim>\<open>write\<close>\<close>







section \<open>\<^verbatim>\<open>utimens\<close>\<close>

lemma plain_nsec: "(x :: 64 word) < 1000000000 \<Longrightarrow> x \<noteq> UTIME_NOW \<and> x \<noteq> UTIME_OMIT"
  by (auto simp: UTIME_NOW_def UTIME_OMIT_def)

lemma new_stamp_plain: "tv_nsec t < 1000000000 \<Longrightarrow> new_stamp k old t = t"
  using plain_nsec [of "tv_nsec t"] by (simp add: new_stamp_def)

lemma nsec_ok_plain: "tv_nsec t < 1000000000 \<Longrightarrow> nsec_ok t"
  by (simp add: nsec_ok_def)

lemma at_resolve_absolute:
  "path \<noteq> [] \<Longrightarrow> hd path = CHR ''/'' \<Longrightarrow> at_resolve k dirfd path = Inr path"
  by (simp add: at_resolve_def)

text \<open>
  The descriptor \<open>-1\<close> that the handler passes is not \<^verbatim>\<open>AT_FDCWD\<close> and is no open
  descriptor: a relative path is never resolved from the working directory.
\<close>

lemma at_resolve_relative:
  "path \<noteq> [] \<Longrightarrow> hd path \<noteq> CHR ''/'' \<Longrightarrow> at_resolve k (- 1) path = Inl EBADF"
  by (simp add: at_resolve_def AT_FDCWD_def fd_lookup_def word_sless_alt)

lemma mirror_utimens_conv:
  "result_convention (sys_utimensat os (- 1) path tv 0 w) (mirror_utimens os path tv w)"
  by (simp add: result_convention_def mirror_utimens_def split: prod.splits)

lemma utimens_ref_sets:
  assumes "path \<noteq> []" "hd path = CHR ''/''" "nodes (kern w) path = Some nd"
    "tv_nsec (fst tv) < 1000000000" "tv_nsec (snd tv) < 1000000000"
  shows "mirror_utimens ref_os path tv w =
     (0, w\<lparr>kern := (kern w)\<lparr>stamps := (stamps (kern w))(path := tv)\<rparr>\<rparr>)"
  using assms
  by (simp add: mirror_utimens_def ref_os_sel k_utimensat_def Let_def at_resolve_absolute
      new_stamp_plain nsec_ok_plain)

lemma utimens_ref_missing:
  assumes "path \<noteq> []" "hd path = CHR ''/''" "nodes (kern w) path = None"
    "tv_nsec (fst tv) < 1000000000" "tv_nsec (snd tv) < 1000000000"
  shows "mirror_utimens ref_os path tv w = (- ENOENT, w\<lparr>errno := ENOENT\<rparr>)"
  using assms
  by (simp add: mirror_utimens_def ref_os_sel k_utimensat_def Let_def at_resolve_absolute
      nsec_ok_plain fail_def)

lemma utimens_ref_relative:
  assumes "path \<noteq> []" "hd path \<noteq> CHR ''/''"
    "tv_nsec (fst tv) < 1000000000" "tv_nsec (snd tv) < 1000000000"
  shows "mirror_utimens ref_os path tv w = (- EBADF, w\<lparr>errno := EBADF\<rparr>)"
  using assms
  by (simp add: mirror_utimens_def ref_os_sel k_utimensat_def Let_def at_resolve_relative
      nsec_ok_plain fail_def)

text \<open>
  Claim C8. For every path and pair of timestamps, over every underlying system,
  \<^verbatim>\<open>utimens\<close> makes the one call \<^verbatim>\<open>utimensat(-1, path, tv, 0)\<close>, with the two
  \<^verbatim>\<open>timespec\<close> values (seconds and nanoseconds) as it received them, and returns 0 when
  the call succeeds and the negated \<^verbatim>\<open>errno\<close> when it fails. On the reference system,
  for an absolute path and two timestamps (nanoseconds below \<open>10\<^sup>9\<close>): when the path
  names a node, the result is 0 and the node's access and modification timestamps are
  exactly the two given, nanoseconds included, whatever the working directory is; when it
  names none, the result is \<open>-ENOENT\<close>. A relative path is not resolved from the working
  directory: the call fails with \<^verbatim>\<open>EBADF\<close>.
\<close>

theorem mirror_utimens_sets_timestamps:
  "result_convention (sys_utimensat os (- 1) path tv 0 w) (mirror_utimens os path tv w) \<and>
   (path \<noteq> [] \<and> tv_nsec (fst tv) < 1000000000 \<and> tv_nsec (snd tv) < 1000000000 \<longrightarrow>
      (if hd path = CHR ''/''
       then (case nodes (kern kw) path of
               Some nd \<Rightarrow>
                 mirror_utimens ref_os path tv kw =
                   (0, kw\<lparr>kern := (kern kw)\<lparr>stamps := (stamps (kern kw))(path := tv)\<rparr>\<rparr>)
             | None \<Rightarrow> mirror_utimens ref_os path tv kw = (- ENOENT, kw\<lparr>errno := ENOENT\<rparr>))
       else mirror_utimens ref_os path tv kw = (- EBADF, kw\<lparr>errno := EBADF\<rparr>)))"
  by (auto simp: mirror_utimens_conv utimens_ref_sets utimens_ref_missing utimens_ref_relative
      split: option.splits)

text \<open>
  Witness for C8: on the installation, with the working directory changed to
  \<^verbatim>\<open>/var\<close>, setting the timestamps of \<^verbatim>\<open>/etc/motd\<close> stores both to the nanosecond and
  returns 0; on the missing \<^verbatim>\<open>/etc/none\<close> the result is \<open>-ENOENT\<close>; on the relative
  \<^verbatim>\<open>image\<close> it is \<open>-EBADF\<close> although \<^verbatim>\<open>/var/image\<close> exists.
\<close>

theorem mirror_utimens_sets_timestamps_witness:
  "fst (mirror_utimens ref_os ''/etc/motd''
      (\<lparr>tv_sec = 1700000000, tv_nsec = 123456789\<rparr>, \<lparr>tv_sec = 1700000001, tv_nsec = 987654321\<rparr>)
      (boot_world\<lparr>kern := boot\<lparr>cwd := ''/var''\<rparr>\<rparr>)) = 0 \<and>
   stamps (kern (snd (mirror_utimens ref_os ''/etc/motd''
      (\<lparr>tv_sec = 1700000000, tv_nsec = 123456789\<rparr>, \<lparr>tv_sec = 1700000001, tv_nsec = 987654321\<rparr>)
      (boot_world\<lparr>kern := boot\<lparr>cwd := ''/var''\<rparr>\<rparr>)))) ''/etc/motd'' =
     (\<lparr>tv_sec = 1700000000, tv_nsec = 123456789\<rparr>, \<lparr>tv_sec = 1700000001, tv_nsec = 987654321\<rparr>) \<and>
   fst (mirror_utimens ref_os ''/etc/none''
      (\<lparr>tv_sec = 1700000000, tv_nsec = 123456789\<rparr>, \<lparr>tv_sec = 1700000001, tv_nsec = 987654321\<rparr>)
      (boot_world\<lparr>kern := boot\<lparr>cwd := ''/var''\<rparr>\<rparr>)) = - 2 \<and>
   fst (mirror_utimens ref_os ''image''
      (\<lparr>tv_sec = 1700000000, tv_nsec = 123456789\<rparr>, \<lparr>tv_sec = 1700000001, tv_nsec = 987654321\<rparr>)
      (boot_world\<lparr>kern := boot\<lparr>cwd := ''/var''\<rparr>\<rparr>)) = - 9"
  using
    mirror_utimens_sets_timestamps [of ref_os "''/etc/motd''"
      "(\<lparr>tv_sec = 1700000000, tv_nsec = 123456789\<rparr>, \<lparr>tv_sec = 1700000001, tv_nsec = 987654321\<rparr>)"
      boot_world "boot_world\<lparr>kern := boot\<lparr>cwd := ''/var''\<rparr>\<rparr>"]
    mirror_utimens_sets_timestamps [of ref_os "''/etc/none''"
      "(\<lparr>tv_sec = 1700000000, tv_nsec = 123456789\<rparr>, \<lparr>tv_sec = 1700000001, tv_nsec = 987654321\<rparr>)"
      boot_world "boot_world\<lparr>kern := boot\<lparr>cwd := ''/var''\<rparr>\<rparr>"]
    mirror_utimens_sets_timestamps [of ref_os "''image''"
      "(\<lparr>tv_sec = 1700000000, tv_nsec = 123456789\<rparr>, \<lparr>tv_sec = 1700000001, tv_nsec = 987654321\<rparr>)"
      boot_world "boot_world\<lparr>kern := boot\<lparr>cwd := ''/var''\<rparr>\<rparr>"]
  by (simp add: boot_defs errno_defs)

section \<open>The session record\<close>

lemmas handler_defs = mirror_access_def mirror_getattr_def mirror_fgetattr_def
  mirror_readlink_def mirror_mknod_def mirror_mkdir_def mirror_unlink_def mirror_rmdir_def
  mirror_link_def mirror_symlink_def mirror_rename_def mirror_chmod_def mirror_chown_def
  mirror_truncate_def mirror_ftruncate_def mirror_opendir_def mirror_releasedir_def
  mirror_readdir_def mirror_open_def mirror_create_def mirror_release_def mirror_read_def
  mirror_write_def mirror_fallocate_def mirror_lock_def mirror_flock_def mirror_fsync_def
  mirror_getxattr_def mirror_setxattr_def mirror_removexattr_def mirror_listxattr_def
  mirror_ioctl_def mirror_statfs_def mirror_utimens_def

lemma session_frame:
  "mirror_oper os req fi w = Some ((r, out, fi1), w1) \<Longrightarrow>
   (\<not> opens_session req \<longrightarrow> fi1 = fi) \<and> flags fi1 = flags fi"
  by (cases req)
    (auto simp: plain_def session_def handler_defs Let_def
      split: prod.splits option.splits if_splits)

lemma path_based_independent:
  "path_based req \<Longrightarrow> answer (mirror_oper os req fi w) = answer (mirror_oper os req fi' w)"
  by (cases req) (auto simp: answer_def plain_def split: prod.splits)

text \<open>
  Claim C9. The source declares no variable outside its functions other than the constant
  table \<^verbatim>\<open>mirror_oper\<close>, so a handler has no state of its own to read or write: what it
  can reach is its arguments, the session record when it has the \<^verbatim>\<open>fi\<close> parameter, and
  the process state handed to the underlying calls (the notice of \<^verbatim>\<open>symlink\<close> goes to
  the standard output, which belongs to the process, not to the dispatcher). For every
  underlying system, request, session record and process state: a request other than
  \<^verbatim>\<open>open\<close>, \<^verbatim>\<open>create\<close> and \<^verbatim>\<open>opendir\<close> leaves the session record as it was; no
  request changes the record's
  \<^verbatim>\<open>flags\<close>; and the answer to a path-based request (result, output buffer and process
  state) is the same whatever the session record holds.
\<close>

theorem session_record_frame:
  "(mirror_oper os req fi w = Some ((r, out, fi1), w1) \<longrightarrow>
      (\<not> opens_session req \<longrightarrow> fi1 = fi) \<and> flags fi1 = flags fi) \<and>
   (path_based req \<longrightarrow>
      answer (mirror_oper os req fi w) = answer (mirror_oper os req fi' w))"
  using session_frame [of os req fi w r out fi1 w1] path_based_independent [of req os fi w fi']
  by blast

text \<open>
  Witness for C9: on the installation with \<^verbatim>\<open>/etc/motd\<close> open at descriptor 3, a
  \<^verbatim>\<open>release\<close> request leaves the session record as it was, and a \<^verbatim>\<open>readlink\<close> request
  is answered the same under two session records.
\<close>

theorem session_record_frame_witness:
  "mirror_oper ref_os (Op_release ''/etc/motd'' :: string list request)
      \<lparr>flags = O_RDWR, fh = 3\<rparr> motd_world =
     Some ((0, No_out, \<lparr>flags = O_RDWR, fh = 3\<rparr>),
           boot_world\<lparr>kern := boot\<lparr>fdtab := fdtab boot @ [None]\<rparr>\<rparr>) \<and>
   answer (mirror_oper ref_os (Op_readlink ''/etc/mtab'' ''....'' 4 :: string list request)
      \<lparr>flags = O_RDWR, fh = 3\<rparr> motd_world) =
   answer (mirror_oper ref_os (Op_readlink ''/etc/mtab'' ''....'' 4)
      \<lparr>flags = O_RDONLY, fh = 0\<rparr> motd_world)"
proof -
  have a: "mirror_oper ref_os (Op_release ''/etc/motd'' :: string list request)
      \<lparr>flags = O_RDWR, fh = 3\<rparr> motd_world =
     Some ((0, No_out, \<lparr>flags = O_RDWR, fh = 3\<rparr>),
           boot_world\<lparr>kern := boot\<lparr>fdtab := fdtab boot @ [None]\<rparr>\<rparr>)"
    by (simp add: session_def mirror_release_def ref_os_sel k_close_def motd_world_def
        boot_defs table_defs flag_defs word_sless_alt)
  have b: "path_based (Op_readlink ''/etc/mtab'' ''....'' 4 :: string list request)"
    by simp
  note t = session_record_frame
  show ?thesis
    using t [where os = ref_os and req = "Op_release ''/etc/motd'' :: string list request"
          and fi = "\<lparr>flags = O_RDWR, fh = 3\<rparr>" and w = motd_world,
          THEN conjunct1, rule_format, OF a]
      t [where os = ref_os and req = "Op_readlink ''/etc/mtab'' ''....'' 4 :: string list request"
          and fi = "\<lparr>flags = O_RDWR, fh = 3\<rparr>" and fi' = "\<lparr>flags = O_RDONLY, fh = 0\<rparr>"
          and w = motd_world, THEN conjunct2, rule_format, OF b]
      a
    by simp
qed

end
